theory Spec2Isabelle
  imports Complex_Main "HOL-Library.Multiset"
begin

section \<open>Numbers and the matrix library\<close>

text \<open>
  JavaScript numbers are modelled as real numbers: rounding, infinities and signed zeros
  are outside the model. A matrix (\<open>Mat4\<close>) is the list of its 16 entries in column-major
  order and a vector (\<open>Vec3\<close>) the list of its 3 entries, as gl-matrix stores them.
\<close>

type_synonym mat4 = "real list"
type_synonym vec3 = "real list"

text \<open>\<open>mat4.multiply(out, a, b)\<close> of gl-matrix, in exact arithmetic.\<close>

definition mat4_multiply :: "mat4 \<Rightarrow> mat4 \<Rightarrow> mat4" where
  "mat4_multiply a b =
    [b!0 * a!0 + b!1 * a!4 + b!2 * a!8 + b!3 * a!12,
     b!0 * a!1 + b!1 * a!5 + b!2 * a!9 + b!3 * a!13,
     b!0 * a!2 + b!1 * a!6 + b!2 * a!10 + b!3 * a!14,
     b!0 * a!3 + b!1 * a!7 + b!2 * a!11 + b!3 * a!15,
     b!4 * a!0 + b!5 * a!4 + b!6 * a!8 + b!7 * a!12,
     b!4 * a!1 + b!5 * a!5 + b!6 * a!9 + b!7 * a!13,
     b!4 * a!2 + b!5 * a!6 + b!6 * a!10 + b!7 * a!14,
     b!4 * a!3 + b!5 * a!7 + b!6 * a!11 + b!7 * a!15,
     b!8 * a!0 + b!9 * a!4 + b!10 * a!8 + b!11 * a!12,
     b!8 * a!1 + b!9 * a!5 + b!10 * a!9 + b!11 * a!13,
     b!8 * a!2 + b!9 * a!6 + b!10 * a!10 + b!11 * a!14,
     b!8 * a!3 + b!9 * a!7 + b!10 * a!11 + b!11 * a!15,
     b!12 * a!0 + b!13 * a!4 + b!14 * a!8 + b!15 * a!12,
     b!12 * a!1 + b!13 * a!5 + b!14 * a!9 + b!15 * a!13,
     b!12 * a!2 + b!13 * a!6 + b!14 * a!10 + b!15 * a!14,
     b!12 * a!3 + b!13 * a!7 + b!14 * a!11 + b!15 * a!15]"

text \<open>
  \<open>vec3.transformMat4(out, a, m)\<close> of gl-matrix: the homogeneous coordinate \<open>w\<close> is
  replaced by 1 when it is 0 (\<open>w = w || 1.0\<close>).
\<close>

definition vec3_transformMat4 :: "vec3 \<Rightarrow> mat4 \<Rightarrow> vec3" where
  "vec3_transformMat4 a m =
    (let x = a!0; y = a!1; z = a!2;
         w0 = m!3 * x + m!7 * y + m!11 * z + m!15;
         w = (if w0 = 0 then 1 else w0)
     in [(m!0 * x + m!4 * y + m!8 * z + m!12) / w,
         (m!1 * x + m!5 * y + m!9 * z + m!13) / w,
         (m!2 * x + m!6 * y + m!10 * z + m!14) / w])"

definition identity4 :: mat4 where
  "identity4 = [1,0,0,0, 0,1,0,0, 0,0,1,0, 0,0,0,1]"

section \<open>Meshes, nodes and the records of a frame\<close>

datatype alphaMode = OPAQUE | MASK | BLEND

record material =
  alphaMode :: alphaMode

record mesh =
  meshId :: nat
  centroid :: vec3
  material :: material

text \<open>
  A node has its local matrix, and optional lists of meshes and of children
  (\<open>if (node.meshes)\<close>, \<open>if (node.children)\<close>; \<open>None\<close> is the absent field).
\<close>

datatype node = Node (matrix: mat4) (meshes: "mesh list option") (children: "node list option")

text \<open>The type \<open>SortedMesh\<close>.\<close>

record sortedMesh =
  mesh :: mesh
  depth :: real
  modelIndex :: nat
  worldViewProjection :: mat4
  nodeModelMatrix :: mat4

text \<open>
  What the code reads of the transform: the projection's name, and
  \<open>convertModelMatrixForGlobe(modelMatrix, transform)\<close> of \<open>util/model_util.js\<close>, which
  is taken as a parameter (\<open>prepareMeshes\<close>); the zoom, the viewport's height, the
  distance from the camera to the map's centre, the aspect ratio and the horizontal field
  of view (the shadow renderer).
\<close>

record transform =
  projection_name :: string
  convertModelMatrixForGlobe :: "mat4 \<Rightarrow> mat4"
  zoom :: real
  height :: real
  cameraToCenterDistance :: real
  aspect :: real
  fovX :: real

section \<open>Scene traversal: \<open>prepareMeshes\<close>\<close>

text \<open>
  The body of the loop over \<open>node.meshes\<close>: a mesh whose alpha mode is not \<open>BLEND\<close> is
  pushed to \<open>opaqueMeshes\<close> with depth 0; a \<open>BLEND\<close> mesh is pushed to
  \<open>transparentMeshes\<close> when \<open>centroidPos[2] > 0.0\<close>. The accumulator is the pair
  (\<open>transparentMeshes\<close>, \<open>opaqueMeshes\<close>) of the two arrays the source pushes to.
\<close>

definition pushMesh :: "mat4 \<Rightarrow> mat4 \<Rightarrow> nat \<Rightarrow> mesh \<Rightarrow> sortedMesh list \<times> sortedMesh list
    \<Rightarrow> sortedMesh list \<times> sortedMesh list" where
  "pushMesh wvp nmm idx m acc =
    (case acc of (transparentMeshes, opaqueMeshes) \<Rightarrow>
      if alphaMode (material m) \<noteq> BLEND
      then (transparentMeshes,
            opaqueMeshes @ [\<lparr>mesh = m, depth = 0, modelIndex = idx,
                              worldViewProjection = wvp, nodeModelMatrix = nmm\<rparr>])
      else
        let centroidPos = vec3_transformMat4 (centroid m) wvp in
        if centroidPos ! 2 > 0
        then (transparentMeshes @ [\<lparr>mesh = m, depth = centroidPos ! 2, modelIndex = idx,
                                     worldViewProjection = wvp, nodeModelMatrix = nmm\<rparr>],
              opaqueMeshes)
        else (transparentMeshes, opaqueMeshes))"

fun prepareMeshes :: "transform \<Rightarrow> node \<Rightarrow> mat4 \<Rightarrow> mat4 \<Rightarrow> nat
    \<Rightarrow> sortedMesh list \<times> sortedMesh list \<Rightarrow> sortedMesh list \<times> sortedMesh list" where
  "prepareMeshes tr (Node node_matrix node_meshes node_children) modelMatrix projectionMatrix idx acc =
    (let nodeModelMatrix0 =
           (if projection_name tr = ''globe'' then convertModelMatrixForGlobe tr modelMatrix
            else modelMatrix);
         nmm = mat4_multiply nodeModelMatrix0 node_matrix;
         wvp = mat4_multiply projectionMatrix nmm;
         acc1 = (case node_meshes of None \<Rightarrow> acc
                 | Some ms \<Rightarrow> fold (pushMesh wvp nmm idx) ms acc)
     in case node_children of None \<Rightarrow> acc1
        | Some cs \<Rightarrow>
            fold (\<lambda>child a. prepareMeshes tr child modelMatrix projectionMatrix idx a) cs acc1)"

subsection \<open>The traversal, described node by node\<close>

text \<open>All nodes of a tree, in the order the traversal visits them.\<close>

fun allNodes :: "node \<Rightarrow> node list" where
  "allNodes (Node node_matrix node_meshes node_children) =
     Node node_matrix node_meshes node_children #
       (case node_children of None \<Rightarrow> [] | Some cs \<Rightarrow> concat (map allNodes cs))"

definition meshList :: "node \<Rightarrow> mesh list" where
  "meshList n = (case meshes n of None \<Rightarrow> [] | Some ms \<Rightarrow> ms)"

text \<open>The matrix every node of a model is multiplied onto: the model's matrix, converted for the globe.\<close>

definition rootMatrix :: "transform \<Rightarrow> mat4 \<Rightarrow> mat4" where
  "rootMatrix tr modelMatrix =
     (if projection_name tr = ''globe'' then convertModelMatrixForGlobe tr modelMatrix
      else modelMatrix)"

definition nodeWorld :: "transform \<Rightarrow> mat4 \<Rightarrow> node \<Rightarrow> mat4" where
  "nodeWorld tr modelMatrix n = mat4_multiply (rootMatrix tr modelMatrix) (matrix n)"

definition nodeWVP :: "transform \<Rightarrow> mat4 \<Rightarrow> mat4 \<Rightarrow> node \<Rightarrow> mat4" where
  "nodeWVP tr modelMatrix projectionMatrix n =
     mat4_multiply projectionMatrix (nodeWorld tr modelMatrix n)"

definition visitNode :: "transform \<Rightarrow> mat4 \<Rightarrow> mat4 \<Rightarrow> nat \<Rightarrow> node
    \<Rightarrow> sortedMesh list \<times> sortedMesh list \<Rightarrow> sortedMesh list \<times> sortedMesh list" where
  "visitNode tr modelMatrix projectionMatrix idx n acc =
     fold (pushMesh (mat4_multiply projectionMatrix (nodeWorld tr modelMatrix n))
                    (nodeWorld tr modelMatrix n) idx) (meshList n) acc"

text \<open>The depth of a mesh: the third coordinate of its centroid under a world-view-projection matrix.\<close>

definition centroidDepth :: "mat4 \<Rightarrow> mesh \<Rightarrow> real" where
  "centroidDepth wvp m = vec3_transformMat4 (centroid m) wvp ! 2"

definition transparentRecord :: "transform \<Rightarrow> mat4 \<Rightarrow> mat4 \<Rightarrow> nat \<Rightarrow> node \<Rightarrow> mesh \<Rightarrow> sortedMesh" where
  "transparentRecord tr modelMatrix projectionMatrix idx n m =
     \<lparr>mesh = m, depth = centroidDepth (nodeWVP tr modelMatrix projectionMatrix n) m,
      modelIndex = idx, worldViewProjection = nodeWVP tr modelMatrix projectionMatrix n,
      nodeModelMatrix = nodeWorld tr modelMatrix n\<rparr>"

definition opaqueRecord :: "transform \<Rightarrow> mat4 \<Rightarrow> mat4 \<Rightarrow> nat \<Rightarrow> node \<Rightarrow> mesh \<Rightarrow> sortedMesh" where
  "opaqueRecord tr modelMatrix projectionMatrix idx n m =
     \<lparr>mesh = m, depth = 0,
      modelIndex = idx, worldViewProjection = nodeWVP tr modelMatrix projectionMatrix n,
      nodeModelMatrix = nodeWorld tr modelMatrix n\<rparr>"

definition transparentOf :: "transform \<Rightarrow> mat4 \<Rightarrow> mat4 \<Rightarrow> nat \<Rightarrow> node \<Rightarrow> sortedMesh list" where
  "transparentOf tr modelMatrix projectionMatrix idx n =
     map (transparentRecord tr modelMatrix projectionMatrix idx n)
       (filter (\<lambda>m. alphaMode (material m) = BLEND \<and>
                     0 < centroidDepth (nodeWVP tr modelMatrix projectionMatrix n) m)
          (meshList n))"

definition opaqueOf :: "transform \<Rightarrow> mat4 \<Rightarrow> mat4 \<Rightarrow> nat \<Rightarrow> node \<Rightarrow> sortedMesh list" where
  "opaqueOf tr modelMatrix projectionMatrix idx n =
     map (opaqueRecord tr modelMatrix projectionMatrix idx n)
       (filter (\<lambda>m. alphaMode (material m) \<noteq> BLEND) (meshList n))"

definition transparentRecords :: "transform \<Rightarrow> mat4 \<Rightarrow> mat4 \<Rightarrow> nat \<Rightarrow> node \<Rightarrow> sortedMesh list" where
  "transparentRecords tr modelMatrix projectionMatrix idx n =
     concat (map (transparentOf tr modelMatrix projectionMatrix idx) (allNodes n))"

definition opaqueRecords :: "transform \<Rightarrow> mat4 \<Rightarrow> mat4 \<Rightarrow> nat \<Rightarrow> node \<Rightarrow> sortedMesh list" where
  "opaqueRecords tr modelMatrix projectionMatrix idx n =
     concat (map (opaqueOf tr modelMatrix projectionMatrix idx) (allNodes n))"

subsection \<open>Example scenes\<close>

definition mercatorTransform :: transform where
  "mercatorTransform =
     \<lparr>projection_name = ''mercator'', convertModelMatrixForGlobe = (\<lambda>m. m),
      zoom = 16, height = 600, cameraToCenterDistance = 900, aspect = 4/3, fovX = 0\<rparr>"

definition meshInFront :: mesh where
  "meshInFront = \<lparr>meshId = 1, centroid = [0, 0, 5], material = \<lparr>alphaMode = BLEND\<rparr>\<rparr>"

definition meshBehind :: mesh where
  "meshBehind = \<lparr>meshId = 2, centroid = [0, 0, -1], material = \<lparr>alphaMode = BLEND\<rparr>\<rparr>"

definition meshSolid :: mesh where
  "meshSolid = \<lparr>meshId = 3, centroid = [0, 0, 2], material = \<lparr>alphaMode = OPAQUE\<rparr>\<rparr>"

definition flatNode :: node where
  "flatNode = Node identity4 (Some [meshInFront, meshBehind, meshSolid]) None"

definition translateX :: mat4 where
  "translateX = [1,0,0,0, 0,1,0,0, 0,0,1,0, 1,0,0,1]"

definition scaleTwo :: mat4 where
  "scaleTwo = [2,0,0,0, 0,2,0,0, 0,0,2,0, 0,0,0,1]"

definition nestedNode :: node where
  "nestedNode = Node translateX (Some [meshSolid]) (Some [Node scaleTwo (Some [meshSolid]) None])"

text \<open>
  The homogeneous coordinate \<open>w\<close> of a mesh's centroid under a matrix, as
  \<open>vec3.transformMat4\<close> computes it before dividing by it: under a perspective projection
  it is positive for a point in front of the camera and negative for a point behind it.
\<close>

definition centroidW :: "mat4 \<Rightarrow> mesh \<Rightarrow> real" where
  "centroidW wvp m =
     wvp!3 * (centroid m ! 0) + wvp!7 * (centroid m ! 1) + wvp!11 * (centroid m ! 2) + wvp!15"

text \<open>
  A perspective projection as \<open>mat4.perspective\<close> builds it (vertical field of view
  \<open>\<pi>/2\<close>, aspect ratio 1, near 1, far 3; the camera looks down the negative z axis),
  and two \<open>BLEND\<close> meshes: one behind the camera and one in front of it, between the near
  and the far plane.
\<close>

definition glPerspective :: mat4 where
  "glPerspective = [1,0,0,0, 0,1,0,0, 0,0,-2,-1, 0,0,-3,0]"

definition meshBehindCamera :: mesh where
  "meshBehindCamera = \<lparr>meshId = 20, centroid = [0, 0, 3], material = \<lparr>alphaMode = BLEND\<rparr>\<rparr>"

definition meshNearCamera :: mesh where
  "meshNearCamera = \<lparr>meshId = 21, centroid = [0, 0, -1.2], material = \<lparr>alphaMode = BLEND\<rparr>\<rparr>"

definition perspectiveNode :: node where
  "perspectiveNode = Node identity4 (Some [meshBehindCamera, meshNearCamera]) None"


section \<open>Drawing the meshes of a model layer: \<open>drawModels\<close>\<close>

text \<open>
  What a failing \<open>assert\<close> throws, and what calling a method of \<open>undefined\<close> throws.
\<close>

datatype error = AssertionError | TypeError

text \<open>
  The stencil and colour modes \<open>drawModels\<close> passes to \<open>drawMesh\<close>:
  \<open>StencilMode.disabled\<close> or \<open>painter.stencilModeFor3D()\<close>, and \<open>ColorMode.disabled\<close> or
  \<open>painter.colorModeForRenderPass()\<close>.
\<close>

datatype stencilMode = StencilDisabled | StencilModeFor3D

datatype colorMode = ColorDisabled | ColorModeForRenderPass

text \<open>
  What \<open>drawModels\<close> does, in order: a call of \<open>program.draw\<close> for a record (made by
  \<open>drawMesh\<close>), \<open>painter.resetStencilClippingMasks()\<close>, or the hand-over to
  \<open>drawInstancedModels\<close> for a tiled source. The uniforms of a draw are not modelled.
\<close>

datatype drawCall =
    DrawMesh sortedMesh stencilMode colorMode
  | ResetStencilClippingMasks
  | DrawInstancedModels

text \<open>
  \<open>drawMesh\<close> asserts \<open>opacity > 0\<close> and then issues one draw. The uniforms are left out,
  and with them their computation, which is taken to succeed: it inverts the lighting
  matrix, and for a singular one \<open>mat4.invert\<close> returns \<open>null\<close> and the \<open>mat4.transpose\<close> that
  follows throws before the draw.
\<close>

definition drawMesh :: "real \<Rightarrow> sortedMesh \<Rightarrow> stencilMode \<Rightarrow> colorMode \<Rightarrow> error + drawCall" where
  "drawMesh opacity sortedMesh stencil color =
     (if opacity > 0 then Inr (DrawMesh sortedMesh stencil color) else Inl AssertionError)"

text \<open>A loop \<open>for (const m of meshes) drawMesh(m, ...)\<close>; a failed assertion ends it.\<close>

fun drawMeshes :: "real \<Rightarrow> stencilMode \<Rightarrow> colorMode \<Rightarrow> sortedMesh list \<Rightarrow> error + drawCall list" where
  "drawMeshes opacity stencil color [] = Inr []"
| "drawMeshes opacity stencil color (m # ms) =
     (case drawMesh opacity m stencil color of
        Inl e \<Rightarrow> Inl e
      | Inr c \<Rightarrow> (case drawMeshes opacity stencil color ms of
                    Inl e \<Rightarrow> Inl e
                  | Inr cs \<Rightarrow> Inr (c # cs)))"

text \<open>
  \<open>Array.prototype.sort(compareFn)\<close>, which is stable (ECMAScript 2019): an insertion
  sort that puts an element before the first later element \<open>y\<close> with
  \<open>compareFn(x, y) \<le> 0\<close>.
\<close>

fun insertSorted :: "('a \<Rightarrow> 'a \<Rightarrow> real) \<Rightarrow> 'a \<Rightarrow> 'a list \<Rightarrow> 'a list" where
  "insertSorted cmp x [] = [x]"
| "insertSorted cmp x (y # ys) =
     (if cmp x y \<le> 0 then x # y # ys else y # insertSorted cmp x ys)"

definition array_sort :: "('a \<Rightarrow> 'a \<Rightarrow> real) \<Rightarrow> 'a list \<Rightarrow> 'a list" where
  "array_sort cmp xs = foldr (insertSorted cmp) xs []"

text \<open>The comparator \<open>(a, b) => b.depth - a.depth\<close>.\<close>

definition depthComparator :: "sortedMesh \<Rightarrow> sortedMesh \<Rightarrow> real" where
  "depthComparator a b = depth b - depth a"

text \<open>
  A model with its nodes and its matrix, the latter as \<open>model.computeModelMatrix\<close> leaves
  it; the model source; and what \<open>drawModels\<close> reads of the painter. The layer's
  \<open>model-opacity\<close> is an argument of \<open>drawModels\<close>.
\<close>

record model =
  model_nodes :: "node list"
  model_matrix :: mat4

record modelSource =
  loaded :: bool
  source_type :: string
  getModels :: "model list"

record painter =
  renderPass :: string
  painter_transform :: transform
  projMatrix :: mat4

text \<open>The loop over the models, counting \<open>modelIndex\<close> up from 0.\<close>

fun prepareModels :: "transform \<Rightarrow> mat4 \<Rightarrow> model list \<Rightarrow> nat
    \<Rightarrow> sortedMesh list \<times> sortedMesh list \<Rightarrow> sortedMesh list \<times> sortedMesh list" where
  "prepareModels tr projectionMatrix [] idx acc = acc"
| "prepareModels tr projectionMatrix (m # ms) idx acc =
     prepareModels tr projectionMatrix ms (idx + 1)
       (fold (\<lambda>node a. prepareMeshes tr node (model_matrix m) projectionMatrix idx a)
          (model_nodes m) acc)"

text \<open>The opaque meshes: one pass when the opacity is 1, two passes otherwise.\<close>

definition drawOpaqueMeshes :: "real \<Rightarrow> sortedMesh list \<Rightarrow> error + drawCall list" where
  "drawOpaqueMeshes opacity opaqueMeshes =
     (if opacity = 1
      then drawMeshes opacity StencilDisabled ColorModeForRenderPass opaqueMeshes
      else (case drawMeshes opacity StencilDisabled ColorDisabled opaqueMeshes of
              Inl e \<Rightarrow> Inl e
            | Inr firstPass \<Rightarrow>
               (case drawMeshes opacity StencilModeFor3D ColorModeForRenderPass opaqueMeshes of
                  Inl e \<Rightarrow> Inl e
                | Inr secondPass \<Rightarrow>
                    Inr (firstPass @ secondPass @ [ResetStencilClippingMasks]))))"

definition drawModels :: "painter \<Rightarrow> modelSource \<Rightarrow> real \<Rightarrow> error + drawCall list" where
  "drawModels painter modelSource opacity =
    (if renderPass painter \<noteq> ''translucent'' then Inr []
     else if opacity = 0 then Inr []
     else if \<not> loaded modelSource then Inr []
     else if source_type modelSource = ''vector'' \<or> source_type modelSource = ''geojson''
       then Inr [DrawInstancedModels]
     else
       (case prepareModels (painter_transform painter) (projMatrix painter)
               (getModels modelSource) 0 ([], []) of
          (transparentMeshes, opaqueMeshes) \<Rightarrow>
            (case drawOpaqueMeshes opacity opaqueMeshes of
               Inl e \<Rightarrow> Inl e
             | Inr opaqueCalls \<Rightarrow>
                (case drawMeshes opacity StencilDisabled ColorModeForRenderPass
                        (array_sort depthComparator transparentMeshes) of
                   Inl e \<Rightarrow> Inl e
                 | Inr transparentCalls \<Rightarrow> Inr (opaqueCalls @ transparentCalls)))))"

text \<open>The two arrays after the traversal of all models, and the calls for the sorted transparent meshes.\<close>

definition collectedMeshes :: "painter \<Rightarrow> modelSource \<Rightarrow> sortedMesh list \<times> sortedMesh list" where
  "collectedMeshes painter modelSource =
     prepareModels (painter_transform painter) (projMatrix painter) (getModels modelSource) 0 ([], [])"

text \<open>A draw of a \<open>BLEND\<close> mesh; a draw of a given record; the number of draws of a record.\<close>

definition isTransparentDraw :: "drawCall \<Rightarrow> bool" where
  "isTransparentDraw c =
     (case c of DrawMesh r _ _ \<Rightarrow> alphaMode (material (mesh r)) = BLEND | _ \<Rightarrow> False)"

definition isDrawOf :: "sortedMesh \<Rightarrow> drawCall \<Rightarrow> bool" where
  "isDrawOf r c = (case c of DrawMesh r' _ _ \<Rightarrow> r' = r | _ \<Rightarrow> False)"

definition drawCount :: "sortedMesh \<Rightarrow> drawCall list \<Rightarrow> nat" where
  "drawCount r cs = length (filter (isDrawOf r) cs)"

text \<open>
  \<open>drawModels\<close> gets as far as traversing meshes: the pass is the translucent one, the
  source is loaded and it is not a tiled (vector or GeoJSON) source.
\<close>

definition reachesMeshDraw :: "painter \<Rightarrow> modelSource \<Rightarrow> bool" where
  "reachesMeshDraw painter modelSource \<longleftrightarrow>
     renderPass painter = ''translucent'' \<and> loaded modelSource \<and>
     source_type modelSource \<noteq> ''vector'' \<and> source_type modelSource \<noteq> ''geojson''"

definition transparentCallsOf :: "painter \<Rightarrow> modelSource \<Rightarrow> drawCall list" where
  "transparentCallsOf painter modelSource =
     map (\<lambda>r. DrawMesh r StencilDisabled ColorModeForRenderPass)
       (array_sort depthComparator (fst (collectedMeshes painter modelSource)))"

text \<open>
  The records of a layer, read off the models of its source: for the model at index \<open>i\<close>,
  the records of the trees of its nodes under the model's matrix, with model index \<open>i\<close>;
  for the layer, those of its models in order.
\<close>

definition modelTransparentRecords :: "transform \<Rightarrow> mat4 \<Rightarrow> nat \<Rightarrow> model \<Rightarrow> sortedMesh list" where
  "modelTransparentRecords tr projectionMatrix idx m =
     concat (map (transparentRecords tr (model_matrix m) projectionMatrix idx) (model_nodes m))"

definition modelOpaqueRecords :: "transform \<Rightarrow> mat4 \<Rightarrow> nat \<Rightarrow> model \<Rightarrow> sortedMesh list" where
  "modelOpaqueRecords tr projectionMatrix idx m =
     concat (map (opaqueRecords tr (model_matrix m) projectionMatrix idx) (model_nodes m))"

definition layerTransparentRecords :: "painter \<Rightarrow> modelSource \<Rightarrow> sortedMesh list" where
  "layerTransparentRecords painter modelSource =
     concat (map (\<lambda>i. modelTransparentRecords (painter_transform painter) (projMatrix painter) i
                         (getModels modelSource ! i))
               [0..<length (getModels modelSource)])"

definition layerOpaqueRecords :: "painter \<Rightarrow> modelSource \<Rightarrow> sortedMesh list" where
  "layerOpaqueRecords painter modelSource =
     concat (map (\<lambda>i. modelOpaqueRecords (painter_transform painter) (projMatrix painter) i
                         (getModels modelSource ! i))
               [0..<length (getModels modelSource)])"

subsection \<open>An example layer\<close>

text \<open>
  One model whose root node has an opaque mesh and transparent meshes of depths 5 and 2,
  and whose child node has a \<open>MASK\<close> mesh and transparent meshes of depths 8 and 5.
\<close>

definition blendMesh :: "nat \<Rightarrow> real \<Rightarrow> mesh" where
  "blendMesh i z = \<lparr>meshId = i, centroid = [0, 0, z], material = \<lparr>alphaMode = BLEND\<rparr>\<rparr>"

definition maskMesh :: mesh where
  "maskMesh = \<lparr>meshId = 4, centroid = [0, 0, 3], material = \<lparr>alphaMode = MASK\<rparr>\<rparr>"

definition sceneModel :: model where
  "sceneModel =
     \<lparr>model_nodes =
        [Node identity4 (Some [meshSolid, blendMesh 10 5, blendMesh 11 2])
           (Some [Node identity4 (Some [maskMesh, blendMesh 12 8, blendMesh 13 5]) None])],
      model_matrix = identity4\<rparr>"

definition scenePainter :: painter where
  "scenePainter = \<lparr>renderPass = ''translucent'', painter_transform = mercatorTransform,
                    projMatrix = identity4\<rparr>"

definition sceneSource :: modelSource where
  "sceneSource = \<lparr>loaded = True, source_type = ''model'', getModels = [sceneModel]\<rparr>"

definition sceneRecord :: "mesh \<Rightarrow> real \<Rightarrow> sortedMesh" where
  "sceneRecord m d = \<lparr>mesh = m, depth = d, modelIndex = 0,
                      worldViewProjection = identity4, nodeModelMatrix = identity4\<rparr>"

text \<open>The root node of the example layer's model.\<close>

definition sceneRoot :: node where
  "sceneRoot =
     Node identity4 (Some [meshSolid, blendMesh 10 5, blendMesh 11 2])
       (Some [Node identity4 (Some [maskMesh, blendMesh 12 8, blendMesh 13 5]) None])"

section \<open>The shadow renderer\<close>

text \<open>The constant \<open>cascadeCount\<close>.\<close>

definition cascadeCount :: nat where
  "cascadeCount = 2"

text \<open>
  A style layer, as the shadow renderer sees it: \<open>hasShadowPass()\<close>, \<open>isHidden(zoom)\<close>,
  its type, and the id of the source cache \<open>style._getLayerSourceCache(layer)\<close> finds for
  it, if any. A style has its \<open>order\<close> of layer ids and the table \<open>_layers\<close>.
\<close>

record styleLayer =
  hasShadowPass :: bool
  isHidden :: "real \<Rightarrow> bool"
  layer_type :: string
  layerSourceCache :: "string option"

record style =
  order :: "string list"
  layers :: "string \<Rightarrow> styleLayer option"

text \<open>
  The directional light: its \<open>properties\<close> may be absent; of the properties, the
  values of \<open>cast-shadows\<close> and \<open>shadow-intensity\<close>.
\<close>

record lightProperties =
  cast_shadows :: bool
  shadow_intensity :: real

record lights =
  properties :: "lightProperties option"

text \<open>
  A cascade: its framebuffer (named by a number), its light matrix and its far distance.
  The depth texture and the frustum, which is computed from the matrix, are left out.
\<close>

record shadowCascade =
  framebuffer :: nat
  cascade_matrix :: mat4
  far :: real

text \<open>
  The fields of \<open>ShadowRenderer\<close>: \<open>_enabled\<close>, \<open>_shadowLayerCount\<close>, \<open>_cascades\<close>, and of
  \<open>_uniformValues\<close> the fade range and the shadow intensity.
\<close>

record shadowRenderer =
  enabled :: bool
  shadowLayerCount :: nat
  cascades :: "shadowCascade list"
  u_fade_range :: "real \<times> real"
  u_shadow_intensity :: real

text \<open>
  The \<open>reduce\<close> over \<open>painter.style.order\<close> that counts the layers with a shadow pass that
  are not hidden at the zoom. An id with no layer in \<open>_layers\<close> makes the method call on
  \<open>undefined\<close> throw.
\<close>

fun countShadowLayers :: "(string \<Rightarrow> styleLayer option) \<Rightarrow> real \<Rightarrow> string list \<Rightarrow> nat \<Rightarrow> error + nat" where
  "countShadowLayers ls z [] accumulator = Inr accumulator"
| "countShadowLayers ls z (layerId # rest) accumulator =
     (case ls layerId of
        None \<Rightarrow> Inl TypeError
      | Some layer \<Rightarrow>
          countShadowLayers ls z rest
            (accumulator + (if hasShadowPass layer \<and> \<not> isHidden layer z then 1 else 0)))"

text \<open>
  The near and far distances of a cascade, as the loop over the cascades computes them
  before it calls \<open>createLightMatrix\<close>.
\<close>

definition cascadeNearFar :: "transform \<Rightarrow> nat \<Rightarrow> real \<times> real" where
  "cascadeNearFar tr cascadeIndex =
     (let cascadeSplitDist = cameraToCenterDistance tr * 1.5;
          shadowCutoutDist = cascadeSplitDist * 3.0;
          near0 = height tr / 50.0
      in if cascadeCount = 1 then (near0, shadowCutoutDist)
         else if cascadeIndex = 0 then (near0, cascadeSplitDist)
         else (cascadeSplitDist, shadowCutoutDist))"

text \<open>
  The loop over the cascades. \<open>createLightMatrix\<close> is the parameter \<open>clm\<close>, a function of
  the near and far distances: its other arguments are the same for all cascades of a
  frame. A cascade index beyond \<open>_cascades\<close> reads \<open>undefined\<close>, and the assignment to its
  field throws.
\<close>

fun updateCascades :: "(real \<Rightarrow> real \<Rightarrow> mat4) \<Rightarrow> transform \<Rightarrow> nat list \<Rightarrow> shadowCascade list
    \<Rightarrow> error + shadowCascade list" where
  "updateCascades clm tr [] cs = Inr cs"
| "updateCascades clm tr (cascadeIndex # rest) cs =
     (if cascadeIndex < length cs
      then (case cascadeNearFar tr cascadeIndex of
              (near, far') \<Rightarrow>
                updateCascades clm tr rest
                  (cs[cascadeIndex := (cs ! cascadeIndex)\<lparr>cascade_matrix := clm near far', far := far'\<rparr>]))
      else Inl TypeError)"

text \<open>A new cascade: a fresh framebuffer, \<open>mat4.create()\<close> and far distance 0.\<close>

definition newCascade :: "nat \<Rightarrow> shadowCascade" where
  "newCascade i = \<lparr>framebuffer = i, cascade_matrix = identity4, far = 0\<rparr>"

text \<open>
  \<open>updateShadowParameters\<close>. Its arguments: \<open>painter.context.isWebGL2\<close>, \<open>painter.style\<close>,
  \<open>createLightMatrix\<close> as above, the transform, the directional light if there is one, and
  the renderer's state. The result is the new state, or the exception thrown.
\<close>

definition updateShadowParameters :: "bool \<Rightarrow> style \<Rightarrow> (real \<Rightarrow> real \<Rightarrow> mat4) \<Rightarrow> transform
    \<Rightarrow> lights option \<Rightarrow> shadowRenderer \<Rightarrow> error + shadowRenderer" where
  "updateShadowParameters isWebGL2 st clm tr directionalLight this =
    (let this0 = this\<lparr>enabled := False, shadowLayerCount := 0\<rparr> in
     if \<not> isWebGL2 then Inr this0
     else (case directionalLight of
        None \<Rightarrow> Inr this0
      | Some light \<Rightarrow>
     (case properties light of
        None \<Rightarrow> Inr this0
      | Some props \<Rightarrow>
     (let shadowIntensity = shadow_intensity props in
      if cast_shadows props \<noteq> True \<or> shadowIntensity \<le> 0 then Inr this0
      else (case countShadowLayers (layers st) (zoom tr) (order st) 0 of
        Inl e \<Rightarrow> Inl e
      | Inr n \<Rightarrow>
     (let this1 = this0\<lparr>shadowLayerCount := n, enabled := (0 < n)\<rparr> in
      if \<not> enabled this1 then Inr this1
      else
       (let cs0 = (if length (cascades this1) = 0 then map newCascade [0..<cascadeCount]
                   else cascades this1)
        in (case updateCascades clm tr [0..<cascadeCount] cs0 of
              Inl e \<Rightarrow> Inl e
            | Inr cs \<Rightarrow>
                if 1 < length cs
                then Inr (this1\<lparr>cascades := cs,
                                u_fade_range := (far (cs ! 1) * 0.75, far (cs ! 1)),
                                u_shadow_intensity := shadowIntensity\<rparr>)
                else Inl TypeError))))))))"

text \<open>
  What \<open>drawShadowPass\<close> does to the context and the painter: it sets the viewport, binds
  a framebuffer, clears, and has the painter render a layer for a cascade.
\<close>

datatype glCall = SetViewport | BindFramebuffer nat | Clear | RenderLayer string nat

text \<open>
  The loop over \<open>style.order\<close> for one cascade. \<open>sourceCoords\<close> gives the tile coordinates
  of a source cache by its id.
\<close>

fun renderShadowLayers :: "(string \<Rightarrow> styleLayer option) \<Rightarrow> real \<Rightarrow> (string \<Rightarrow> nat list option)
    \<Rightarrow> nat \<Rightarrow> string list \<Rightarrow> error + glCall list" where
  "renderShadowLayers ls z sourceCoords cascade [] = Inr []"
| "renderShadowLayers ls z sourceCoords cascade (layerId # rest) =
     (case ls layerId of
        None \<Rightarrow> Inl TypeError
      | Some layer \<Rightarrow>
          if \<not> hasShadowPass layer \<or> isHidden layer z
          then renderShadowLayers ls z sourceCoords cascade rest
          else
            (let coords = (case layerSourceCache layer of
                             None \<Rightarrow> None | Some sid \<Rightarrow> sourceCoords sid)
             in if layer_type layer \<noteq> ''model'' \<and>
                   \<not> (case coords of None \<Rightarrow> False | Some c \<Rightarrow> length c \<noteq> 0)
                then renderShadowLayers ls z sourceCoords cascade rest
                else (case renderShadowLayers ls z sourceCoords cascade rest of
                        Inl e \<Rightarrow> Inl e
                      | Inr calls \<Rightarrow> Inr (RenderLayer layerId cascade # calls))))"

text \<open>The loop over the cascades.\<close>

fun drawCascades :: "shadowCascade list \<Rightarrow> style \<Rightarrow> real \<Rightarrow> (string \<Rightarrow> nat list option)
    \<Rightarrow> nat list \<Rightarrow> error + glCall list" where
  "drawCascades cs st z sourceCoords [] = Inr []"
| "drawCascades cs st z sourceCoords (cascade # rest) =
     (if cascade < length cs
      then (case renderShadowLayers (layers st) z sourceCoords cascade (order st) of
              Inl e \<Rightarrow> Inl e
            | Inr calls \<Rightarrow>
               (case drawCascades cs st z sourceCoords rest of
                  Inl e \<Rightarrow> Inl e
                | Inr others \<Rightarrow>
                    Inr (BindFramebuffer (framebuffer (cs ! cascade)) # Clear # calls @ others)))
      else Inl TypeError)"

text \<open>
  \<open>drawShadowPass\<close>, for the renderer's state, \<open>painter.renderPass\<close>, \<open>painter.transform.zoom\<close>,
  the style and the tile coordinates of the sources.
\<close>

definition drawShadowPass :: "shadowRenderer \<Rightarrow> string \<Rightarrow> real \<Rightarrow> style
    \<Rightarrow> (string \<Rightarrow> nat list option) \<Rightarrow> error + glCall list" where
  "drawShadowPass this pass z st sourceCoords =
     (if \<not> enabled this then Inr []
      else if pass \<noteq> ''shadow'' then Inl AssertionError
      else (case drawCascades (cascades this) st z sourceCoords [0..<cascadeCount] of
              Inl e \<Rightarrow> Inl e
            | Inr calls \<Rightarrow> Inr (SetViewport # calls)))"

text \<open>
  The bounding sphere of the frustum slice in \<open>createLightMatrix\<close>: the constant \<open>k\<close>, and
  the pair (\<open>centerDepth\<close>, \<open>radius\<close>). The quotient \<open>farMinusNear / farPlusNear\<close> is the real
  quotient; where \<open>far + near = 0\<close> JavaScript's quotient is infinite or not a number, and
  the model says nothing of the code.
\<close>

definition sphereK :: "transform \<Rightarrow> real" where
  "sphereK tr = sqrt (1 + aspect tr * aspect tr) * tan (fovX tr * 0.5)"

definition frustumBoundingSphere :: "transform \<Rightarrow> real \<Rightarrow> real \<Rightarrow> real \<times> real" where
  "frustumBoundingSphere tr near far' =
     (let k = sphereK tr;
          k2 = k * k;
          farMinusNear = far' - near;
          farPlusNear = far' + near
      in if k2 > farMinusNear / farPlusNear
         then (far', far' * k)
         else (0.5 * farPlusNear * (1 + k2),
               0.5 * sqrt (farMinusNear * farMinusNear + 2 * (far' * far' + near * near) * k2
                           + farPlusNear * farPlusNear * k2 * k2)))"

subsection \<open>An example style and renderer\<close>

definition buildingLayer :: styleLayer where
  "buildingLayer = \<lparr>hasShadowPass = True, isHidden = (\<lambda>z. z < 15),
                     layer_type = ''fill-extrusion'', layerSourceCache = Some ''composite''\<rparr>"

definition roadLayer :: styleLayer where
  "roadLayer = \<lparr>hasShadowPass = False, isHidden = (\<lambda>z. False),
                 layer_type = ''line'', layerSourceCache = Some ''composite''\<rparr>"

definition cityStyle :: style where
  "cityStyle = \<lparr>order = [''road'', ''building''],
                 layers = (\<lambda>i. if i = ''road'' then Some roadLayer
                                else if i = ''building'' then Some buildingLayer else None)\<rparr>"

definition sunLight :: "bool \<Rightarrow> lights" where
  "sunLight cast = \<lparr>properties = Some \<lparr>cast_shadows = cast, shadow_intensity = 1\<rparr>\<rparr>"

definition newShadowRenderer :: shadowRenderer where
  "newShadowRenderer = \<lparr>enabled = False, shadowLayerCount = 0, cascades = [],
                         u_fade_range = (0, 0), u_shadow_intensity = 0\<rparr>"

definition diagonalLightMatrix :: "real \<Rightarrow> real \<Rightarrow> mat4" where
  "diagonalLightMatrix near far' = [near,0,0,0, 0,far',0,0, 0,0,1,0, 0,0,0,1]"

definition cityShadowRenderer :: shadowRenderer where
  "cityShadowRenderer =
     \<lparr>enabled = True, shadowLayerCount = 1,
      cascades = [\<lparr>framebuffer = 0, cascade_matrix = diagonalLightMatrix 12 1350, far = 1350\<rparr>,
                  \<lparr>framebuffer = 1, cascade_matrix = diagonalLightMatrix 1350 4050, far = 4050\<rparr>],
      u_fade_range = (3037.5, 4050), u_shadow_intensity = 1\<rparr>"

definition compositeCoords :: "string \<Rightarrow> nat list option" where
  "compositeCoords sid = (if sid = ''composite'' then Some [7] else None)"

section \<open>Instanced models\<close>

text \<open>
  A number of an instance buffer or of an array that may be read out of range: a real
  number, or \<open>NaN\<close> (what arithmetic on \<open>undefined\<close> gives).
\<close>

datatype jsnum = Num real | NaN

text \<open>
  \<open>v | 0\<close>: the number truncated towards zero and wrapped to a signed 32-bit integer;
  0 for \<open>NaN\<close>.
\<close>

definition toInt32 :: "jsnum \<Rightarrow> int" where
  "toInt32 v =
     (case v of
        NaN \<Rightarrow> 0
      | Num r \<Rightarrow> ((if 0 \<le> r then \<lfloor>r\<rfloor> else \<lceil>r\<rceil>) + 2 ^ 31) mod 2 ^ 32 - 2 ^ 31)"

text \<open>
  \<open>float32[i] | 0\<close>: a typed array read out of range gives \<open>undefined\<close>, and
  \<open>undefined | 0\<close> is 0.
\<close>

definition readInt :: "jsnum list \<Rightarrow> nat \<Rightarrow> int" where
  "readInt xs i = (if i < length xs then toInt32 (xs ! i) else 0)"

text \<open>
  The instance buffer (a struct array): the size of an element in bytes, the number of
  elements and the \<open>float32\<close> view of the buffer. The instances of one model: the buffer
  and the elevation evaluated for each instance.
\<close>

record structArray =
  bytesPerElement :: nat
  array_length :: nat
  float32 :: "jsnum list"

record instances =
  instancedDataArray :: structArray
  instancesEvaluatedElevation :: "real list"

text \<open>
  The terrain. A DEM tile has the identity of its \<open>tileID.canonical\<close> object (a number
  here) and may have \<open>dem\<close> data. A sampler has its \<open>_demTile\<close>, which may be absent, and
  \<open>getElevationAt(x, y, true)\<close>. The terrain gives its exaggeration, \<open>findDEMTileFor\<close>, and
  \<open>DEMSampler.create(terrain, bucketTileID, demTile)\<close> of \<open>terrain/elevation.js\<close>, which is
  taken as the parameter \<open>createSampler\<close>. A tile id is a number.
\<close>

record demTile =
  tileID_canonical :: nat
  dem_present :: bool

record demSampler =
  sampler_demTile :: "demTile option"
  getElevationAt :: "int \<Rightarrow> int \<Rightarrow> real"

record terrain =
  exaggeration :: real
  findDEMTileFor :: "nat \<Rightarrow> demTile option"
  createSampler :: "nat \<Rightarrow> demTile \<Rightarrow> demSampler option"

text \<open>
  A model bucket: the instances per model id, in the order of the object's keys, the
  exaggeration and the DEM tile the elevations are valid for, and the \<open>uploaded\<close> flag.
\<close>

record modelBucket =
  instancesPerModel :: "(string \<times> instances) list"
  validForExaggeration :: real
  validForDEMTile :: "nat option"
  uploaded :: bool

text \<open>
  What the updater does to a buffer and its collaborators: it reads or writes a lane of
  the \<open>float32\<close> view of a model's buffer, samples the elevation, and has the bucket
  upload itself.
\<close>

datatype bufferEvent =
    ReadLane string nat
  | WriteLane string nat
  | GetElevationAt int int
  | Upload

text \<open>
  The body of the loop over the instances of a model: the elevation lane \<open>i * 16 + 6\<close> is
  written; a write out of range is ignored, as a typed array does. An evaluated elevation
  read out of range is \<open>undefined\<close>, and the sum is \<open>NaN\<close>.
\<close>

definition updateInstance :: "demSampler option \<Rightarrow> real \<Rightarrow> string \<Rightarrow> nat
    \<Rightarrow> instances \<times> bufferEvent list \<Rightarrow> instances \<times> bufferEvent list" where
  "updateInstance dem ex modelId i st =
     (case st of (inst, evs) \<Rightarrow>
       (let arr = instancedDataArray inst;
            x = readInt (float32 arr) (i * 16);
            y = readInt (float32 arr) (i * 16 + 1);
            sampled = (case dem of None \<Rightarrow> 0 | Some d \<Rightarrow> ex * getElevationAt d x y);
            elevation = (if i < length (instancesEvaluatedElevation inst)
                         then Num (sampled + instancesEvaluatedElevation inst ! i) else NaN)
        in (inst\<lparr>instancedDataArray := arr\<lparr>float32 := (float32 arr)[i * 16 + 6 := elevation]\<rparr>\<rparr>,
            evs @ [ReadLane modelId (i * 16), ReadLane modelId (i * 16 + 1)]
                @ (case dem of None \<Rightarrow> [] | Some d \<Rightarrow> [GetElevationAt x y])
                @ [WriteLane modelId (i * 16 + 6)])))"

text \<open>
  The loop over the models of a bucket: the assertion on the element size, then the loop
  over the instances. The result is the instances as they are left, the events, and the
  exception if the assertion failed.
\<close>

fun updateModels :: "demSampler option \<Rightarrow> real \<Rightarrow> (string \<times> instances) list
    \<Rightarrow> (string \<times> instances) list \<times> bufferEvent list \<times> error option" where
  "updateModels dem ex [] = ([], [], None)"
| "updateModels dem ex ((modelId, inst) # rest) =
     (if bytesPerElement (instancedDataArray inst) \<noteq> 64
      then ((modelId, inst) # rest, [], Some AssertionError)
      else (case fold (updateInstance dem ex modelId)
                   [0..<array_length (instancedDataArray inst)] (inst, []) of
              (inst', evs1) \<Rightarrow>
                (case updateModels dem ex rest of
                   (rest', evs2, e) \<Rightarrow> ((modelId, inst') # rest', evs1 @ evs2, e))))"

text \<open>
  The exaggeration and the sampler an update works with: no terrain gives exaggeration 0;
  a positive exaggeration with no DEM tile, or a tile with no data, is turned to 0.
\<close>

definition terrainFor :: "terrain option \<Rightarrow> nat \<Rightarrow> real \<times> demSampler option" where
  "terrainFor terr bucketTileID =
     (case terr of
        None \<Rightarrow> (0, None)
      | Some t \<Rightarrow>
          if 0 < exaggeration t
          then (case findDEMTileFor t bucketTileID of
                  None \<Rightarrow> (0, None)
                | Some tile \<Rightarrow>
                    if dem_present tile then (exaggeration t, createSampler t bucketTileID tile)
                    else (0, None))
          else (exaggeration t, None))"

text \<open>The test that lets the update return at once.\<close>

definition bucketIsValid :: "modelBucket \<Rightarrow> real \<Rightarrow> demSampler option \<Rightarrow> bool" where
  "bucketIsValid bucket ex dem \<longleftrightarrow>
     ex = validForExaggeration bucket \<and>
     (ex = 0 \<or>
      (case dem of
         None \<Rightarrow> False
       | Some d \<Rightarrow>
          (case sampler_demTile d of
             None \<Rightarrow> False
           | Some tile \<Rightarrow> Some (tileID_canonical tile) = validForDEMTile bucket)))"

text \<open>
  \<open>updateModelBucketsElevation\<close>, for \<open>painter.terrain\<close> if there is one, the bucket and
  the bucket's tile id. The result is the bucket as it is left, the events, and the
  exception if an assertion failed.
\<close>

definition updateModelBucketsElevation :: "terrain option \<Rightarrow> modelBucket \<Rightarrow> nat
    \<Rightarrow> modelBucket \<times> bufferEvent list \<times> error option" where
  "updateModelBucketsElevation terr bucket bucketTileID =
     (case terrainFor terr bucketTileID of
        (ex, dem) \<Rightarrow>
          if bucketIsValid bucket ex dem then (bucket, [], None)
          else (case updateModels dem ex (instancesPerModel bucket) of
                  (ipm, evs, Some e) \<Rightarrow> (bucket\<lparr>instancesPerModel := ipm\<rparr>, evs, Some e)
                | (ipm, evs, None) \<Rightarrow>
                    (bucket\<lparr>instancesPerModel := ipm,
                            validForExaggeration := ex,
                            validForDEMTile :=
                              (case dem of
                                 None \<Rightarrow> None
                               | Some d \<Rightarrow> map_option tileID_canonical (sampler_demTile d)),
                            uploaded := False\<rparr>,
                     evs @ [Upload], None)))"

text \<open>
  What \<open>drawInstancedNode\<close> does for a mesh: it sets the draw up (defines, textures,
  program and uniforms; the instance buffer is not touched), and draws an instance from
  the 16 floats at a byte offset of the buffer.
\<close>

datatype instancedCall = SetupMeshDraw nat | DrawInstance nat nat

text \<open>The loop over the meshes of a node: set-up, the assertion, one draw per instance.\<close>

fun drawInstancedMeshes :: "mesh list \<Rightarrow> instances \<Rightarrow> instancedCall list \<times> error option" where
  "drawInstancedMeshes [] modelInstances = ([], None)"
| "drawInstancedMeshes (m # ms) modelInstances =
     (if bytesPerElement (instancedDataArray modelInstances) \<noteq> 64
      then ([SetupMeshDraw (meshId m)], Some AssertionError)
      else (case drawInstancedMeshes ms modelInstances of
              (calls, e) \<Rightarrow>
                (SetupMeshDraw (meshId m) #
                 map (\<lambda>i. DrawInstance (meshId m) (i * 64))
                   [0..<array_length (instancedDataArray modelInstances)] @ calls, e)))"

text \<open>\<open>drawInstancedNode\<close>: the meshes of the node, then its children; an exception ends it.\<close>

fun drawInstancedNode :: "node \<Rightarrow> instances \<Rightarrow> instancedCall list \<times> error option" where
  "drawInstancedNode (Node node_matrix node_meshes node_children) modelInstances =
     (case (case node_meshes of None \<Rightarrow> ([], None)
            | Some ms \<Rightarrow> drawInstancedMeshes ms modelInstances) of
        (calls, Some e) \<Rightarrow> (calls, Some e)
      | (calls, None) \<Rightarrow>
          (case node_children of
             None \<Rightarrow> (calls, None)
           | Some cs \<Rightarrow>
               fold (\<lambda>child acc.
                       case acc of
                         (done, Some e) \<Rightarrow> (done, Some e)
                       | (done, None) \<Rightarrow>
                           (case drawInstancedNode child modelInstances of
                              (more_calls, e) \<Rightarrow> (done @ more_calls, e)))
                 cs (calls, None)))"

text \<open>An event that reads or writes a lane of the buffer of model \<open>m\<close>; a call that reads an instance.\<close>

definition touches :: "string \<Rightarrow> bufferEvent \<Rightarrow> bool" where
  "touches m e =
     (case e of ReadLane m' _ \<Rightarrow> m' = m | WriteLane m' _ \<Rightarrow> m' = m | _ \<Rightarrow> False)"

definition isSample :: "bufferEvent \<Rightarrow> bool" where
  "isSample e = (case e of GetElevationAt _ _ \<Rightarrow> True | _ \<Rightarrow> False)"

definition isInstanceRead :: "instancedCall \<Rightarrow> bool" where
  "isInstanceRead c = (case c of DrawInstance _ _ \<Rightarrow> True | _ \<Rightarrow> False)"

text \<open>The identity of the DEM tile behind a sampler, if it has one.\<close>

definition demIdentity :: "demSampler option \<Rightarrow> nat option" where
  "demIdentity dem =
     (case dem of None \<Rightarrow> None | Some d \<Rightarrow> map_option tileID_canonical (sampler_demTile d))"

text \<open>The calls \<open>drawInstancedNode\<close> makes for a mesh when the assertion holds.\<close>

definition meshCalls :: "instances \<Rightarrow> mesh \<Rightarrow> instancedCall list" where
  "meshCalls modelInstances m =
     SetupMeshDraw (meshId m) #
     map (\<lambda>i. DrawInstance (meshId m) (i * 64))
       [0..<array_length (instancedDataArray modelInstances)]"

text \<open>A node with a mesh somewhere in its tree.\<close>

definition hasMesh :: "node \<Rightarrow> bool" where
  "hasMesh n \<longleftrightarrow> (\<exists>k \<in> set (allNodes n). meshList k \<noteq> [])"

subsection \<open>Example buckets\<close>

text \<open>
  A bucket with two instances of a model on 64-byte elements, a terrain with a DEM tile
  for tile 5 only, and a bucket that also has a model on 32-byte elements.
\<close>

definition treeLanes :: "jsnum list" where
  "treeLanes = map Num [3.7, 4, 0, 0, 0, 0, 0, 0, 0, 0, 0, 0, 0, 0, 0, 0,
                        -2.5, 1, 0, 0, 0, 0, 0, 0, 0, 0, 0, 0, 0, 0, 0, 0]"

definition treeInstances :: "jsnum list \<Rightarrow> instances" where
  "treeInstances lanes =
     \<lparr>instancedDataArray = \<lparr>bytesPerElement = 64, array_length = 2, float32 = lanes\<rparr>,
      instancesEvaluatedElevation = [10, 20]\<rparr>"

definition hillTile :: demTile where
  "hillTile = \<lparr>tileID_canonical = 42, dem_present = True\<rparr>"

definition hillTerrain :: terrain where
  "hillTerrain =
     \<lparr>exaggeration = 2,
      findDEMTileFor = (\<lambda>i. if i = 5 then Some hillTile else None),
      createSampler = (\<lambda>i tile. Some \<lparr>sampler_demTile = Some tile,
                                       getElevationAt = (\<lambda>x y. of_int (x + y))\<rparr>)\<rparr>"

definition treeBucket :: modelBucket where
  "treeBucket = \<lparr>instancesPerModel = [(''tree'', treeInstances treeLanes)],
                  validForExaggeration = 0, validForDEMTile = None, uploaded = True\<rparr>"

definition treeBucketOnHill :: modelBucket where
  "treeBucketOnHill =
     \<lparr>instancesPerModel = [(''tree'', treeInstances (treeLanes[6 := Num 24, 22 := Num 18]))],
      validForExaggeration = 2, validForDEMTile = Some 42, uploaded = False\<rparr>"

definition treeBucketFlat :: modelBucket where
  "treeBucketFlat =
     \<lparr>instancesPerModel = [(''tree'', treeInstances (treeLanes[6 := Num 10, 22 := Num 20]))],
      validForExaggeration = 0, validForDEMTile = None, uploaded = False\<rparr>"

definition lampInstances :: instances where
  "lampInstances =
     \<lparr>instancedDataArray = \<lparr>bytesPerElement = 32, array_length = 1,
                             float32 = map Num [1, 2, 0, 0, 0, 0, 0, 0]\<rparr>,
      instancesEvaluatedElevation = [5]\<rparr>"

definition mixedBucket :: modelBucket where
  "mixedBucket = \<lparr>instancesPerModel = [(''tree'', treeInstances treeLanes), (''lamp'', lampInstances)],
                   validForExaggeration = 1, validForDEMTile = None, uploaded = True\<rparr>"

subsection \<open>Tiled sources: \<open>drawInstancedModels\<close>\<close>

text \<open>
  The tiled path. A tile of the source, as \<open>drawInstancedModels\<close> sees it: the bucket
  \<open>tile.getBucket(layer)\<close>, if there is one, and the name of that bucket's projection.
\<close>

record layerTile =
  tile_bucket :: "modelBucket option"
  bucket_projection :: string

text \<open>The loop \<open>for (const node of model.nodes) drawInstancedNode(...)\<close>.\<close>

fun drawInstancedNodes :: "node list \<Rightarrow> instances \<Rightarrow> instancedCall list \<times> error option" where
  "drawInstancedNodes [] modelInstances = ([], None)"
| "drawInstancedNodes (n # ns) modelInstances =
     (case drawInstancedNode n modelInstances of
        (calls, Some e) \<Rightarrow> (calls, Some e)
      | (calls, None) \<Rightarrow>
          (case drawInstancedNodes ns modelInstances of
             (others, e) \<Rightarrow> (calls @ others, e)))"

text \<open>
  The loop over the model ids of a bucket: a model the manager does not have is skipped.
\<close>

fun drawBucketModels :: "(string \<Rightarrow> model option) \<Rightarrow> (string \<times> instances) list
    \<Rightarrow> instancedCall list \<times> error option" where
  "drawBucketModels getModel [] = ([], None)"
| "drawBucketModels getModel ((modelId, modelInstances) # rest) =
     (case getModel modelId of
        None \<Rightarrow> drawBucketModels getModel rest
      | Some model \<Rightarrow>
          (case drawInstancedNodes (model_nodes model) modelInstances of
             (calls, Some e) \<Rightarrow> (calls, Some e)
           | (calls, None) \<Rightarrow>
               (case drawBucketModels getModel rest of
                  (others, e) \<Rightarrow> (calls @ others, e))))"

text \<open>
  The loop over the tile coordinates: a tile without a bucket, or with a bucket of another
  projection, is skipped; otherwise the bucket's elevations are updated and its models
  drawn. \<open>source.getTile(coord)\<close> is \<open>getTile\<close>; with no tile, the call of its method
  throws. A bucket is updated in place, so a later visit of the same coordinate reads the
  bucket as the update left it. The result is the buckets visited, as they are left, the
  calls, and the exception if one was thrown.
\<close>

fun drawInstancedTiles :: "terrain option \<Rightarrow> string \<Rightarrow> (string \<Rightarrow> model option)
    \<Rightarrow> (nat \<Rightarrow> layerTile option) \<Rightarrow> nat list
    \<Rightarrow> (nat \<times> modelBucket) list \<times> instancedCall list \<times> error option" where
  "drawInstancedTiles terr projectionName getModel getTile [] = ([], [], None)"
| "drawInstancedTiles terr projectionName getModel getTile (coord # rest) =
     (case getTile coord of
        None \<Rightarrow> ([], [], Some TypeError)
      | Some tile \<Rightarrow>
          (case tile_bucket tile of
             None \<Rightarrow> drawInstancedTiles terr projectionName getModel getTile rest
           | Some bucket \<Rightarrow>
               if bucket_projection tile \<noteq> projectionName
               then drawInstancedTiles terr projectionName getModel getTile rest
               else
                 (case updateModelBucketsElevation terr bucket coord of
                    (bucket', evs, Some e) \<Rightarrow> ([(coord, bucket')], [], Some e)
                  | (bucket', evs, None) \<Rightarrow>
                      (case drawBucketModels getModel (instancesPerModel bucket') of
                         (calls, Some e) \<Rightarrow> ([(coord, bucket')], calls, Some e)
                       | (calls, None) \<Rightarrow>
                           (case drawInstancedTiles terr projectionName getModel
                                   (getTile(coord \<mapsto> tile\<lparr>tile_bucket := Some bucket'\<rparr>)) rest of
                              (buckets, others, e) \<Rightarrow>
                                ((coord, bucket') # buckets, calls @ others, e))))))"

text \<open>
  \<open>drawInstancedModels\<close>, for the transform, \<open>painter.style.modelManager\<close> if there is one
  (its \<open>getModel\<close>), \<open>painter.terrain\<close>, the tiles of the source and the tile coordinates.
  The layer's opacity is a uniform of the draws and decides no call.
\<close>

definition drawInstancedModels :: "transform \<Rightarrow> (string \<Rightarrow> model option) option \<Rightarrow> terrain option
    \<Rightarrow> (nat \<Rightarrow> layerTile option) \<Rightarrow> nat list
    \<Rightarrow> (nat \<times> modelBucket) list \<times> instancedCall list \<times> error option" where
  "drawInstancedModels tr modelManager terr getTile coords =
     (if projection_name tr \<noteq> ''mercator'' then ([], [], None)
      else (case modelManager of
              None \<Rightarrow> ([], [], None)
            | Some getModel \<Rightarrow>
                drawInstancedTiles terr (projection_name tr) getModel getTile coords))"

text \<open>
  A tiled layer: a vector source, and one tile whose bucket has one instance of a model
  with one opaque mesh.
\<close>

definition tiledSource :: modelSource where
  "tiledSource = \<lparr>loaded = True, source_type = ''vector'', getModels = []\<rparr>"

definition benchModel :: model where
  "benchModel = \<lparr>model_nodes = [Node identity4 (Some [meshSolid]) None], model_matrix = identity4\<rparr>"

definition benchInstances :: instances where
  "benchInstances =
     \<lparr>instancedDataArray = \<lparr>bytesPerElement = 64, array_length = 1,
                             float32 = map Num [1, 2, 0, 0, 0, 0, 0, 0, 0, 0, 0, 0, 0, 0, 0, 0]\<rparr>,
      instancesEvaluatedElevation = [0]\<rparr>"

definition benchBucket :: modelBucket where
  "benchBucket = \<lparr>instancesPerModel = [(''bench'', benchInstances)],
                   validForExaggeration = 0, validForDEMTile = None, uploaded = True\<rparr>"

definition benchManager :: "string \<Rightarrow> model option" where
  "benchManager modelId = (if modelId = ''bench'' then Some benchModel else None)"

definition benchTiles :: "nat \<Rightarrow> layerTile option" where
  "benchTiles coord =
     (if coord = 5 then Some \<lparr>tile_bucket = Some benchBucket, bucket_projection = ''mercator''\<rparr>
      else None)"

section \<open>Properties of the traversal\<close>

lemma fold_children:
  assumes "\<And>c a. c \<in> set cs \<Longrightarrow> f c a = fold g (h c) a"
  shows "fold f cs acc = fold g (concat (map h cs)) acc"
  using assms by (induction cs arbitrary: acc) simp_all

lemma prepareMeshes_unfold:
  "prepareMeshes tr (Node node_matrix node_meshes node_children) modelMatrix projectionMatrix idx acc =
     (case node_children of
        None \<Rightarrow> visitNode tr modelMatrix projectionMatrix idx (Node node_matrix node_meshes node_children) acc
      | Some cs \<Rightarrow>
          fold (\<lambda>child a. prepareMeshes tr child modelMatrix projectionMatrix idx a) cs
            (visitNode tr modelMatrix projectionMatrix idx (Node node_matrix node_meshes node_children) acc))"
  by (simp add: visitNode_def nodeWorld_def rootMatrix_def meshList_def Let_def split: option.split)

lemma prepareMeshes_flat:
  "prepareMeshes tr n modelMatrix projectionMatrix idx acc =
     fold (visitNode tr modelMatrix projectionMatrix idx) (allNodes n) acc"
proof (induction tr n modelMatrix projectionMatrix idx acc rule: prepareMeshes.induct)
  case (1 tr node_matrix node_meshes node_children modelMatrix projectionMatrix idx acc)
  let ?n = "Node node_matrix node_meshes node_children"
  let ?acc1 = "visitNode tr modelMatrix projectionMatrix idx ?n acc"
  show ?case
  proof (cases node_children)
    case None
    then show ?thesis
      by (simp only: prepareMeshes_unfold allNodes.simps option.case fold_simps id_apply comp_apply)
  next
    case (Some cs)
    have step: "\<And>c a. c \<in> set cs \<Longrightarrow>
        prepareMeshes tr c modelMatrix projectionMatrix idx a =
        fold (visitNode tr modelMatrix projectionMatrix idx) (allNodes c) a"
      using "1.IH" [OF refl refl refl refl Some] by blast
    have "fold (\<lambda>child a. prepareMeshes tr child modelMatrix projectionMatrix idx a) cs ?acc1 =
          fold (visitNode tr modelMatrix projectionMatrix idx) (concat (map allNodes cs)) ?acc1"
      by (rule fold_children) (rule step)
    then show ?thesis using Some
      by (simp only: prepareMeshes_unfold allNodes.simps option.case fold_simps id_apply comp_apply)
  qed
qed

lemma fold_pushMesh:
  "fold (pushMesh wvp nmm idx) ms (ts, os) =
     (ts @ map (\<lambda>m. \<lparr>mesh = m, depth = centroidDepth wvp m, modelIndex = idx,
                      worldViewProjection = wvp, nodeModelMatrix = nmm\<rparr>)
             (filter (\<lambda>m. alphaMode (material m) = BLEND \<and> 0 < centroidDepth wvp m) ms),
      os @ map (\<lambda>m. \<lparr>mesh = m, depth = 0, modelIndex = idx,
                      worldViewProjection = wvp, nodeModelMatrix = nmm\<rparr>)
             (filter (\<lambda>m. alphaMode (material m) \<noteq> BLEND) ms))"
  by (induction ms arbitrary: ts os) (simp_all add: pushMesh_def centroidDepth_def Let_def)

lemma visitNode_eq:
  "visitNode tr modelMatrix projectionMatrix idx n (ts, os) =
     (ts @ transparentOf tr modelMatrix projectionMatrix idx n,
      os @ opaqueOf tr modelMatrix projectionMatrix idx n)"
  unfolding visitNode_def fold_pushMesh transparentOf_def opaqueOf_def
    transparentRecord_def [abs_def] opaqueRecord_def [abs_def] nodeWVP_def
  by simp

lemma fold_visitNode:
  "fold (visitNode tr modelMatrix projectionMatrix idx) ns (ts, os) =
     (ts @ concat (map (transparentOf tr modelMatrix projectionMatrix idx) ns),
      os @ concat (map (opaqueOf tr modelMatrix projectionMatrix idx) ns))"
  by (induction ns arbitrary: ts os) (simp_all add: visitNode_eq)

lemma prepareMeshes_eq:
  "prepareMeshes tr n modelMatrix projectionMatrix idx (ts, os) =
     (ts @ transparentRecords tr modelMatrix projectionMatrix idx n,
      os @ opaqueRecords tr modelMatrix projectionMatrix idx n)"
  by (simp add: prepareMeshes_flat fold_visitNode transparentRecords_def opaqueRecords_def)

lemma transparentRecords_cases:
  assumes "r \<in> set (transparentRecords tr modelMatrix projectionMatrix idx n)"
  obtains k m where "k \<in> set (allNodes n)" and "m \<in> set (meshList k)"
    and "r = transparentRecord tr modelMatrix projectionMatrix idx k m"
    and "alphaMode (material m) = BLEND"
    and "0 < centroidDepth (nodeWVP tr modelMatrix projectionMatrix k) m"
  using assms by (auto simp: transparentRecords_def transparentOf_def)

lemma opaqueRecords_cases:
  assumes "r \<in> set (opaqueRecords tr modelMatrix projectionMatrix idx n)"
  obtains k m where "k \<in> set (allNodes n)" and "m \<in> set (meshList k)"
    and "r = opaqueRecord tr modelMatrix projectionMatrix idx k m"
    and "alphaMode (material m) \<noteq> BLEND"
  using assms by (auto simp: opaqueRecords_def opaqueOf_def)





text \<open>
  Under a perspective matrix as \<open>mat4.perspective\<close> builds it, the sign of the depth does
  not tell the front of the camera from the back: the centroid behind the camera (\<open>z = 3\<close>,
  \<open>w = -3\<close>) has depth 3 and is recorded, and the centroid in front of it between the near
  and the far plane (\<open>z = -1.2\<close>, \<open>w = 1.2\<close>) has depth -1/2 and is dropped, although the
  source's comment reads "Filter meshes behind the camera". These are the two cases of
  which the statement above says nothing.
\<close>

lemma prepareMeshes_perspective_divide:
  "centroidW glPerspective meshBehindCamera = -3 \<and>
   centroidW glPerspective meshNearCamera = 6 / 5 \<and>
   centroidDepth glPerspective meshNearCamera = - (1 / 2) \<and>
   fst (prepareMeshes mercatorTransform perspectiveNode identity4 glPerspective 0 ([], [])) =
     [\<lparr>mesh = meshBehindCamera, depth = 3, modelIndex = 0,
       worldViewProjection = glPerspective, nodeModelMatrix = identity4\<rparr>]"
  by (simp add: centroidW_def centroidDepth_def vec3_transformMat4_def glPerspective_def
      meshBehindCamera_def meshNearCamera_def perspectiveNode_def mercatorTransform_def
      pushMesh_def mat4_multiply_def identity4_def)

text \<open>
  Claim C8: the traversal is a loop over all nodes of the tree in which each node, at
  whatever depth, is visited with the world matrix \<open>rootMatrix \<cdot> node.matrix\<close>, where
  \<open>rootMatrix\<close> is the model matrix passed in (converted for the globe): the matrices of a
  node's ancestors do not enter. Every record added, opaque or transparent, carries that
  matrix of the node its mesh belongs to, and the projection matrix times it.
\<close>

theorem prepareMeshes_world_matrix_per_node:
  "prepareMeshes tr n modelMatrix projectionMatrix idx (ts, os) =
     fold (\<lambda>k. fold (pushMesh
                 (mat4_multiply projectionMatrix (mat4_multiply (rootMatrix tr modelMatrix) (matrix k)))
                 (mat4_multiply (rootMatrix tr modelMatrix) (matrix k)) idx) (meshList k))
       (allNodes n) (ts, os) \<and>
   (\<exists>ta oa. prepareMeshes tr n modelMatrix projectionMatrix idx (ts, os) = (ts @ ta, os @ oa) \<and>
      (\<forall>r \<in> set (ta @ oa). \<exists>k \<in> set (allNodes n).
         mesh r \<in> set (meshList k) \<and>
         nodeModelMatrix r = mat4_multiply (rootMatrix tr modelMatrix) (matrix k) \<and>
         worldViewProjection r = mat4_multiply projectionMatrix (nodeModelMatrix r)))"
proof (rule conjI)
  show "prepareMeshes tr n modelMatrix projectionMatrix idx (ts, os) =
     fold (\<lambda>k. fold (pushMesh
                 (mat4_multiply projectionMatrix (mat4_multiply (rootMatrix tr modelMatrix) (matrix k)))
                 (mat4_multiply (rootMatrix tr modelMatrix) (matrix k)) idx) (meshList k))
       (allNodes n) (ts, os)"
    by (simp add: prepareMeshes_flat visitNode_def [abs_def] nodeWorld_def)
next
  let ?ta = "transparentRecords tr modelMatrix projectionMatrix idx n"
  let ?oa = "opaqueRecords tr modelMatrix projectionMatrix idx n"
  have "\<exists>k \<in> set (allNodes n).
         mesh r \<in> set (meshList k) \<and>
         nodeModelMatrix r = mat4_multiply (rootMatrix tr modelMatrix) (matrix k) \<and>
         worldViewProjection r = mat4_multiply projectionMatrix (nodeModelMatrix r)"
    if "r \<in> set (?ta @ ?oa)" for r
  proof -
    from that consider "r \<in> set ?ta" | "r \<in> set ?oa" by auto
    then show ?thesis
    proof cases
      case 1
      then obtain k m where "k \<in> set (allNodes n)" "m \<in> set (meshList k)"
        "r = transparentRecord tr modelMatrix projectionMatrix idx k m"
        by (rule transparentRecords_cases)
      then show ?thesis
        by (auto simp: transparentRecord_def nodeWVP_def nodeWorld_def)
    next
      case 2
      then obtain k m where "k \<in> set (allNodes n)" "m \<in> set (meshList k)"
        "r = opaqueRecord tr modelMatrix projectionMatrix idx k m"
        by (rule opaqueRecords_cases)
      then show ?thesis
        by (auto simp: opaqueRecord_def nodeWVP_def nodeWorld_def)
    qed
  qed
  then show "\<exists>ta oa. prepareMeshes tr n modelMatrix projectionMatrix idx (ts, os) = (ts @ ta, os @ oa) \<and>
      (\<forall>r \<in> set (ta @ oa). \<exists>k \<in> set (allNodes n).
         mesh r \<in> set (meshList k) \<and>
         nodeModelMatrix r = mat4_multiply (rootMatrix tr modelMatrix) (matrix k) \<and>
         worldViewProjection r = mat4_multiply projectionMatrix (nodeModelMatrix r))"
    using prepareMeshes_eq by blast
qed

text \<open>
  On \<open>nestedNode\<close>, a node translated along x with one child scaled by 2, under the
  identity model matrix: the child's mesh is recorded with the child's own matrix
  \<open>scaleTwo\<close>; its parent's translation is not part of it.
\<close>

theorem prepareMeshes_world_matrix_per_node_witness:
  "map nodeModelMatrix
     (snd (prepareMeshes mercatorTransform nestedNode identity4 identity4 0 ([], [])))
   = [translateX, scaleTwo]"
  using prepareMeshes_world_matrix_per_node
    [of mercatorTransform nestedNode identity4 identity4 0 "[]" "[]"]
  by (simp add: nestedNode_def meshList_def rootMatrix_def mercatorTransform_def
      pushMesh_def meshSolid_def mat4_multiply_def identity4_def translateX_def scaleTwo_def)

section \<open>Properties of \<open>drawModels\<close>\<close>

lemma drawMeshes_ok:
  "0 < opacity \<Longrightarrow> drawMeshes opacity stencil color ms = Inr (map (\<lambda>r. DrawMesh r stencil color) ms)"
  by (induction ms) (simp_all add: drawMesh_def)

lemma mset_insertSorted: "mset (insertSorted cmp x ys) = add_mset x (mset ys)"
  by (induction ys) simp_all

lemma mset_array_sort: "mset (array_sort cmp xs) = mset xs"
  by (induction xs) (simp_all add: array_sort_def mset_insertSorted)

lemma set_insertSorted: "set (insertSorted cmp x ys) = insert x (set ys)"
  by (induction ys) auto

lemma sorted_insertSorted:
  "sorted_wrt (\<lambda>a b. depth b \<le> depth a) ys \<Longrightarrow>
   sorted_wrt (\<lambda>a b. depth b \<le> depth a) (insertSorted depthComparator x ys)"
  by (induction ys) (auto simp: depthComparator_def set_insertSorted)

lemma sorted_array_sort:
  "sorted_wrt (\<lambda>a b. depth b \<le> depth a) (array_sort depthComparator xs)"
  by (induction xs) (simp_all add: array_sort_def sorted_insertSorted)

lemma filter_insertSorted:
  "filter (\<lambda>r. depth r = d) (insertSorted depthComparator x ys) =
   filter (\<lambda>r. depth r = d) (x # ys)"
  by (induction ys) (auto simp: depthComparator_def)

lemma stable_array_sort:
  "filter (\<lambda>r. depth r = d) (array_sort depthComparator xs) = filter (\<lambda>r. depth r = d) xs"
  by (induction xs) (simp_all add: array_sort_def filter_insertSorted)

lemma fold_prepareMeshes_inv:
  assumes "\<forall>r \<in> set (fst acc). alphaMode (material (mesh r)) = BLEND"
    and "\<forall>r \<in> set (snd acc). alphaMode (material (mesh r)) \<noteq> BLEND"
  shows "(\<forall>r \<in> set (fst (fold (\<lambda>node a. prepareMeshes tr node mm pm idx a) ns acc)).
            alphaMode (material (mesh r)) = BLEND) \<and>
         (\<forall>r \<in> set (snd (fold (\<lambda>node a. prepareMeshes tr node mm pm idx a) ns acc)).
            alphaMode (material (mesh r)) \<noteq> BLEND)"
  using assms
proof (induction ns arbitrary: acc)
  case Nil
  then show ?case by simp
next
  case (Cons n ns)
  obtain ts os where acc: "acc = (ts, os)" by (cases acc)
  have "\<forall>r \<in> set (transparentRecords tr mm pm idx n). alphaMode (material (mesh r)) = BLEND"
    by (auto elim!: transparentRecords_cases simp: transparentRecord_def)
  moreover have "\<forall>r \<in> set (opaqueRecords tr mm pm idx n). alphaMode (material (mesh r)) \<noteq> BLEND"
    by (auto elim!: opaqueRecords_cases simp: opaqueRecord_def)
  ultimately show ?case using Cons.prems
    by (simp add: acc prepareMeshes_eq del: prepareMeshes.simps) (rule Cons.IH, auto)
qed

lemma prepareModels_inv:
  assumes "\<forall>r \<in> set (fst acc). alphaMode (material (mesh r)) = BLEND"
    and "\<forall>r \<in> set (snd acc). alphaMode (material (mesh r)) \<noteq> BLEND"
  shows "(\<forall>r \<in> set (fst (prepareModels tr pm ms idx acc)). alphaMode (material (mesh r)) = BLEND) \<and>
         (\<forall>r \<in> set (snd (prepareModels tr pm ms idx acc)). alphaMode (material (mesh r)) \<noteq> BLEND)"
  using assms
proof (induction ms arbitrary: idx acc)
  case Nil
  then show ?case by simp
next
  case (Cons m ms)
  from fold_prepareMeshes_inv [OF Cons.prems]
  show ?case by (simp del: prepareMeshes.simps) (rule Cons.IH, auto)
qed

lemma collectedMeshes_alphaMode:
  "(\<forall>r \<in> set (fst (collectedMeshes painter modelSource)). alphaMode (material (mesh r)) = BLEND) \<and>
   (\<forall>r \<in> set (snd (collectedMeshes painter modelSource)). alphaMode (material (mesh r)) \<noteq> BLEND)"
  unfolding collectedMeshes_def by (rule prepareModels_inv) simp_all

lemma set_array_sort: "set (array_sort cmp xs) = set xs"
  by (metis mset_array_sort set_mset_mset)

lemma drawModels_eq:
  assumes "reachesMeshDraw painter modelSource" and "0 < opacity"
  shows "drawModels painter modelSource opacity =
     Inr ((if opacity = 1
           then map (\<lambda>r. DrawMesh r StencilDisabled ColorModeForRenderPass)
                  (snd (collectedMeshes painter modelSource))
           else map (\<lambda>r. DrawMesh r StencilDisabled ColorDisabled)
                  (snd (collectedMeshes painter modelSource)) @
                map (\<lambda>r. DrawMesh r StencilModeFor3D ColorModeForRenderPass)
                  (snd (collectedMeshes painter modelSource)) @
                [ResetStencilClippingMasks])
          @ transparentCallsOf painter modelSource)"
  using assms
  by (simp add: drawModels_def reachesMeshDraw_def drawOpaqueMeshes_def drawMeshes_ok
      collectedMeshes_def transparentCallsOf_def split: prod.split)

lemma drawCount_append: "drawCount r (xs @ ys) = drawCount r xs + drawCount r ys"
  by (simp add: drawCount_def)

lemma drawCount_Cons:
  "drawCount r (c # cs) = (if isDrawOf r c then 1 else 0) + drawCount r cs"
  by (simp add: drawCount_def)

lemma drawCount_map: "drawCount r (map (\<lambda>r. DrawMesh r stencil color) xs) = count_list xs r"
  by (induction xs) (simp_all add: drawCount_def isDrawOf_def)

lemma drawCount_transparent:
  assumes "alphaMode (material (mesh r)) \<noteq> BLEND"
  shows "drawCount r (transparentCallsOf painter modelSource) = 0"
proof -
  have "r \<notin> set (array_sort depthComparator (fst (collectedMeshes painter modelSource)))"
    using assms collectedMeshes_alphaMode [of painter modelSource]
    by (auto simp: set_array_sort)
  then show ?thesis
    by (simp add: transparentCallsOf_def drawCount_map)
qed

text \<open>
  Claim C2: when \<open>drawModels\<close> traverses meshes and the opacity is positive, its calls
  are some calls that draw no \<open>BLEND\<close> mesh, followed by one draw per transparent record
  in sorted order. The sorted records are the traversal's transparent records rearranged;
  for all \<open>i < j\<close> the depth at \<open>i\<close> is at least the depth at \<open>j\<close>; and the records of
  any one depth stand in their traversal order.
\<close>

theorem drawModels_transparent_back_to_front:
  assumes "reachesMeshDraw painter modelSource" and "0 < opacity"
  shows "\<exists>opaqueCalls.
     drawModels painter modelSource opacity =
       Inr (opaqueCalls @
            map (\<lambda>r. DrawMesh r StencilDisabled ColorModeForRenderPass)
              (array_sort depthComparator (fst (collectedMeshes painter modelSource)))) \<and>
     (\<forall>c \<in> set opaqueCalls. \<not> isTransparentDraw c) \<and>
     (\<forall>r \<in> set (array_sort depthComparator (fst (collectedMeshes painter modelSource))).
        alphaMode (material (mesh r)) = BLEND) \<and>
     mset (array_sort depthComparator (fst (collectedMeshes painter modelSource))) =
       mset (fst (collectedMeshes painter modelSource)) \<and>
     (\<forall>i j. i < j \<and> j < length (array_sort depthComparator (fst (collectedMeshes painter modelSource)))
        \<longrightarrow> depth (array_sort depthComparator (fst (collectedMeshes painter modelSource)) ! j)
            \<le> depth (array_sort depthComparator (fst (collectedMeshes painter modelSource)) ! i)) \<and>
     (\<forall>d. filter (\<lambda>r. depth r = d)
             (array_sort depthComparator (fst (collectedMeshes painter modelSource))) =
           filter (\<lambda>r. depth r = d) (fst (collectedMeshes painter modelSource)))"
proof -
  let ?os = "snd (collectedMeshes painter modelSource)"
  let ?oc = "if opacity = 1
           then map (\<lambda>r. DrawMesh r StencilDisabled ColorModeForRenderPass) ?os
           else map (\<lambda>r. DrawMesh r StencilDisabled ColorDisabled) ?os @
                map (\<lambda>r. DrawMesh r StencilModeFor3D ColorModeForRenderPass) ?os @
                [ResetStencilClippingMasks]"
  have 1: "drawModels painter modelSource opacity =
       Inr (?oc @
            map (\<lambda>r. DrawMesh r StencilDisabled ColorModeForRenderPass)
              (array_sort depthComparator (fst (collectedMeshes painter modelSource))))"
    using drawModels_eq [OF assms] by (simp add: transparentCallsOf_def)
  have 2: "\<forall>c \<in> set ?oc. \<not> isTransparentDraw c"
    using collectedMeshes_alphaMode [of painter modelSource]
    by (auto simp: isTransparentDraw_def)
  have 3: "\<forall>r \<in> set (array_sort depthComparator (fst (collectedMeshes painter modelSource))).
        alphaMode (material (mesh r)) = BLEND"
    using collectedMeshes_alphaMode [of painter modelSource] by (simp add: set_array_sort)
  have 5: "\<forall>i j. i < j \<and> j < length (array_sort depthComparator (fst (collectedMeshes painter modelSource)))
        \<longrightarrow> depth (array_sort depthComparator (fst (collectedMeshes painter modelSource)) ! j)
            \<le> depth (array_sort depthComparator (fst (collectedMeshes painter modelSource)) ! i)"
    using sorted_array_sort [of "fst (collectedMeshes painter modelSource)"]
    by (simp add: sorted_wrt_iff_nth_less)
  from 1 2 3 5 show ?thesis
    by (intro exI [of _ ?oc] conjI) (simp_all only: mset_array_sort stable_array_sort simp_thms)
qed

lemma identity4_multiply: "mat4_multiply identity4 identity4 = identity4"
  by (simp add: mat4_multiply_def identity4_def)

lemma scene_collected:
  "collectedMeshes scenePainter sceneSource =
     ([sceneRecord (blendMesh 10 5) 5, sceneRecord (blendMesh 11 2) 2,
       sceneRecord (blendMesh 12 8) 8, sceneRecord (blendMesh 13 5) 5],
      [sceneRecord meshSolid 0, sceneRecord maskMesh 0])"
  by (simp add: collectedMeshes_def scenePainter_def sceneSource_def sceneModel_def
      mercatorTransform_def identity4_multiply pushMesh_def sceneRecord_def)
    (simp add: vec3_transformMat4_def identity4_def blendMesh_def maskMesh_def meshSolid_def)

lemma scene_sorted:
  "array_sort depthComparator (fst (collectedMeshes scenePainter sceneSource)) =
     [sceneRecord (blendMesh 12 8) 8, sceneRecord (blendMesh 10 5) 5,
      sceneRecord (blendMesh 13 5) 5, sceneRecord (blendMesh 11 2) 2]"
  by (simp add: scene_collected array_sort_def depthComparator_def sceneRecord_def)

lemma scene_reaches: "reachesMeshDraw scenePainter sceneSource"
  by (simp add: reachesMeshDraw_def scenePainter_def sceneSource_def)

text \<open>
  The example layer at opacity 1: the two opaque meshes, then the transparent meshes of
  depths 8, 5, 5, 2, the two of depth 5 in traversal order (mesh 10 before mesh 13).
\<close>

theorem drawModels_transparent_back_to_front_witness:
  "drawModels scenePainter sceneSource 1 =
     Inr [DrawMesh (sceneRecord meshSolid 0) StencilDisabled ColorModeForRenderPass,
          DrawMesh (sceneRecord maskMesh 0) StencilDisabled ColorModeForRenderPass,
          DrawMesh (sceneRecord (blendMesh 12 8) 8) StencilDisabled ColorModeForRenderPass,
          DrawMesh (sceneRecord (blendMesh 10 5) 5) StencilDisabled ColorModeForRenderPass,
          DrawMesh (sceneRecord (blendMesh 13 5) 5) StencilDisabled ColorModeForRenderPass,
          DrawMesh (sceneRecord (blendMesh 11 2) 2) StencilDisabled ColorModeForRenderPass]"
proof -
  have pos: "(0::real) < 1" by simp
  from drawModels_transparent_back_to_front [OF scene_reaches pos] obtain opaqueCalls where
    eq: "drawModels scenePainter sceneSource 1 =
       Inr (opaqueCalls @
            map (\<lambda>r. DrawMesh r StencilDisabled ColorModeForRenderPass)
              (array_sort depthComparator (fst (collectedMeshes scenePainter sceneSource))))"
    by blast
  have "drawModels scenePainter sceneSource 1 =
     Inr (map (\<lambda>r. DrawMesh r StencilDisabled ColorModeForRenderPass)
           (snd (collectedMeshes scenePainter sceneSource)) @
          transparentCallsOf scenePainter sceneSource)"
    using drawModels_eq [OF scene_reaches pos] by simp
  with eq have "opaqueCalls =
      map (\<lambda>r. DrawMesh r StencilDisabled ColorModeForRenderPass)
           (snd (collectedMeshes scenePainter sceneSource))"
    by (simp add: transparentCallsOf_def)
  with eq show ?thesis
    by (simp add: scene_sorted) (simp add: scene_collected)
qed

lemma fold_prepareMeshes_eq:
  "fold (\<lambda>node a. prepareMeshes tr node modelMatrix projectionMatrix idx a) ns (ts, os) =
     (ts @ concat (map (transparentRecords tr modelMatrix projectionMatrix idx) ns),
      os @ concat (map (opaqueRecords tr modelMatrix projectionMatrix idx) ns))"
  by (induction ns arbitrary: ts os) (simp_all add: prepareMeshes_eq del: prepareMeshes.simps)

lemma upt_shift: "[0..<Suc n] = 0 # map Suc [0..<n]"
  by (simp add: upt_conv_Cons map_Suc_upt del: upt_Suc)

lemma prepareModels_eq:
  "prepareModels tr projectionMatrix ms idx (ts, os) =
     (ts @ concat (map (\<lambda>j. modelTransparentRecords tr projectionMatrix (idx + j) (ms ! j))
                     [0..<length ms]),
      os @ concat (map (\<lambda>j. modelOpaqueRecords tr projectionMatrix (idx + j) (ms ! j))
                     [0..<length ms]))"
proof (induction ms arbitrary: idx ts os)
  case Nil
  then show ?case by simp
next
  case (Cons m ms)
  show ?case
    by (simp add: fold_prepareMeshes_eq Cons.IH upt_shift comp_def
        modelTransparentRecords_def modelOpaqueRecords_def del: upt_Suc prepareMeshes.simps)
qed

lemma collectedMeshes_eq:
  "collectedMeshes painter modelSource =
     (layerTransparentRecords painter modelSource, layerOpaqueRecords painter modelSource)"
  by (simp add: collectedMeshes_def prepareModels_eq layerTransparentRecords_def
      layerOpaqueRecords_def)

lemma layerOpaqueRecords_mem:
  assumes "i < length (getModels modelSource)"
    and "n \<in> set (model_nodes (getModels modelSource ! i))"
    and "k \<in> set (allNodes n)" and "m \<in> set (meshList k)"
    and "alphaMode (material m) \<noteq> BLEND"
  shows "opaqueRecord (painter_transform painter) (model_matrix (getModels modelSource ! i))
           (projMatrix painter) i k m \<in> set (layerOpaqueRecords painter modelSource)"
proof -
  from assms(3-5)
  have "opaqueRecord (painter_transform painter) (model_matrix (getModels modelSource ! i))
           (projMatrix painter) i k m
        \<in> set (opaqueRecords (painter_transform painter) (model_matrix (getModels modelSource ! i))
                 (projMatrix painter) i n)"
    by (auto simp: opaqueRecords_def opaqueOf_def)
  with assms(2)
  have "opaqueRecord (painter_transform painter) (model_matrix (getModels modelSource ! i))
           (projMatrix painter) i k m
        \<in> set (modelOpaqueRecords (painter_transform painter) (projMatrix painter) i
                 (getModels modelSource ! i))"
    by (auto simp: modelOpaqueRecords_def)
  with assms(1) show ?thesis
    by (auto simp: layerOpaqueRecords_def)
qed

text \<open>
  Claim C3, as stated for every opaque mesh in a model layer: it fails for a layer on a
  tiled source. With a vector source and opacity 1/2, \<open>drawModels\<close> hands over to
  \<open>drawInstancedModels\<close> and makes no draw of its own; there the opaque mesh 3 is drawn
  once, for its one instance, not twice.
\<close>

theorem drawModels_tiled_source_one_pass:
  "alphaMode (material meshSolid) = OPAQUE \<and> meshId meshSolid = 3 \<and>
   renderPass scenePainter = ''translucent'' \<and>
   loaded tiledSource \<and> source_type tiledSource = ''vector'' \<and>
   drawModels scenePainter tiledSource (1/2) = Inr [DrawInstancedModels] \<and>
   drawInstancedModels (painter_transform scenePainter) (Some benchManager) None benchTiles [5] =
     ([(5, benchBucket)], [SetupMeshDraw 3, DrawInstance 3 0], None)"
  by (simp add: drawModels_def scenePainter_def tiledSource_def meshSolid_def
      drawInstancedModels_def mercatorTransform_def benchTiles_def benchBucket_def
      benchManager_def benchModel_def benchInstances_def
      updateModelBucketsElevation_def terrainFor_def bucketIsValid_def)

lemma transparent_calls_are_transparent:
  "\<forall>c \<in> set (transparentCallsOf painter modelSource). isTransparentDraw c"
  using collectedMeshes_alphaMode [of painter modelSource]
  by (auto simp: transparentCallsOf_def set_array_sort isTransparentDraw_def)

lemma drawCount_transparent_calls:
  assumes "alphaMode (material (mesh r)) \<noteq> BLEND" and "\<forall>c \<in> set cs. isTransparentDraw c"
  shows "drawCount r cs = 0"
  using assms
  by (auto simp: drawCount_def isDrawOf_def isTransparentDraw_def filter_empty_conv
      split: drawCall.splits)

text \<open>
  Claim C3, amended: for a layer whose source is not tiled, in the translucent pass with
  the source loaded, and as long as \<open>drawMesh\<close> computes the uniforms of every draw (no
  lighting matrix is singular). When the opacity is strictly between
  0 and 1, \<open>drawModels\<close> draws the opaque records of the source's models, in order, with
  stencil and colour disabled, then draws them again with the 3D stencil mode and the
  render pass's colour mode, resets the stencil masks, and only then draws \<open>BLEND\<close>
  meshes; when the opacity is 1 it draws them once, with the stencil disabled and the
  render pass's colour mode. Every mesh that is not \<open>BLEND\<close>, of every node of every tree
  of every model of the source, has its record among them, and that record is drawn twice
  in the first case and once in the second for each time it stands in the list. When the
  opacity is 0, \<open>drawModels\<close> returns with no call made, whatever the source.
\<close>

theorem drawModels_opaque_passes:
  "(reachesMeshDraw painter modelSource \<longrightarrow>
      (0 < opacity \<and> opacity < 1 \<longrightarrow>
         (\<exists>transparentCalls.
            drawModels painter modelSource opacity =
              Inr (map (\<lambda>r. DrawMesh r StencilDisabled ColorDisabled)
                     (layerOpaqueRecords painter modelSource) @
                   map (\<lambda>r. DrawMesh r StencilModeFor3D ColorModeForRenderPass)
                     (layerOpaqueRecords painter modelSource) @
                   [ResetStencilClippingMasks] @ transparentCalls) \<and>
            (\<forall>c \<in> set transparentCalls. isTransparentDraw c))) \<and>
      (opacity = 1 \<longrightarrow>
         (\<exists>transparentCalls.
            drawModels painter modelSource opacity =
              Inr (map (\<lambda>r. DrawMesh r StencilDisabled ColorModeForRenderPass)
                     (layerOpaqueRecords painter modelSource) @ transparentCalls) \<and>
            (\<forall>c \<in> set transparentCalls. isTransparentDraw c))) \<and>
      (\<forall>i < length (getModels modelSource).
         \<forall>n \<in> set (model_nodes (getModels modelSource ! i)).
         \<forall>k \<in> set (allNodes n). \<forall>m \<in> set (meshList k).
           alphaMode (material m) \<noteq> BLEND \<longrightarrow>
             1 \<le> count_list (layerOpaqueRecords painter modelSource)
                    (opaqueRecord (painter_transform painter)
                       (model_matrix (getModels modelSource ! i)) (projMatrix painter) i k m) \<and>
             (0 < opacity \<and> opacity < 1 \<longrightarrow>
                (\<exists>calls. drawModels painter modelSource opacity = Inr calls \<and>
                   drawCount (opaqueRecord (painter_transform painter)
                       (model_matrix (getModels modelSource ! i)) (projMatrix painter) i k m) calls =
                   2 * count_list (layerOpaqueRecords painter modelSource)
                         (opaqueRecord (painter_transform painter)
                            (model_matrix (getModels modelSource ! i)) (projMatrix painter) i k m))) \<and>
             (opacity = 1 \<longrightarrow>
                (\<exists>calls. drawModels painter modelSource opacity = Inr calls \<and>
                   drawCount (opaqueRecord (painter_transform painter)
                       (model_matrix (getModels modelSource ! i)) (projMatrix painter) i k m) calls =
                   count_list (layerOpaqueRecords painter modelSource)
                         (opaqueRecord (painter_transform painter)
                            (model_matrix (getModels modelSource ! i)) (projMatrix painter) i k m))))) \<and>
   (opacity = 0 \<longrightarrow> drawModels painter modelSource opacity = Inr [])"
proof (intro conjI impI allI ballI)
  assume "opacity = 0"
  then show "drawModels painter modelSource opacity = Inr []"
    by (simp add: drawModels_def)
next
  assume r: "reachesMeshDraw painter modelSource" and o: "0 < opacity \<and> opacity < 1"
  then have "drawModels painter modelSource opacity =
      Inr (map (\<lambda>r. DrawMesh r StencilDisabled ColorDisabled)
             (layerOpaqueRecords painter modelSource) @
           map (\<lambda>r. DrawMesh r StencilModeFor3D ColorModeForRenderPass)
             (layerOpaqueRecords painter modelSource) @
           [ResetStencilClippingMasks] @ transparentCallsOf painter modelSource)"
    by (simp add: drawModels_eq collectedMeshes_eq)
  with transparent_calls_are_transparent
  show "\<exists>transparentCalls.
            drawModels painter modelSource opacity =
              Inr (map (\<lambda>r. DrawMesh r StencilDisabled ColorDisabled)
                     (layerOpaqueRecords painter modelSource) @
                   map (\<lambda>r. DrawMesh r StencilModeFor3D ColorModeForRenderPass)
                     (layerOpaqueRecords painter modelSource) @
                   [ResetStencilClippingMasks] @ transparentCalls) \<and>
            (\<forall>c \<in> set transparentCalls. isTransparentDraw c)"
    by blast
next
  assume r: "reachesMeshDraw painter modelSource" and o: "opacity = 1"
  then have "drawModels painter modelSource opacity =
      Inr (map (\<lambda>r. DrawMesh r StencilDisabled ColorModeForRenderPass)
             (layerOpaqueRecords painter modelSource) @ transparentCallsOf painter modelSource)"
    by (simp add: drawModels_eq collectedMeshes_eq)
  with transparent_calls_are_transparent
  show "\<exists>transparentCalls.
            drawModels painter modelSource opacity =
              Inr (map (\<lambda>r. DrawMesh r StencilDisabled ColorModeForRenderPass)
                     (layerOpaqueRecords painter modelSource) @ transparentCalls) \<and>
            (\<forall>c \<in> set transparentCalls. isTransparentDraw c)"
    by blast
next
  fix i n k m
  assume r: "reachesMeshDraw painter modelSource"
    and i: "i < length (getModels modelSource)"
    and n: "n \<in> set (model_nodes (getModels modelSource ! i))"
    and k: "k \<in> set (allNodes n)" and m: "m \<in> set (meshList k)"
    and b: "alphaMode (material m) \<noteq> BLEND"
  let ?r = "opaqueRecord (painter_transform painter)
              (model_matrix (getModels modelSource ! i)) (projMatrix painter) i k m"
  have mem: "?r \<in> set (layerOpaqueRecords painter modelSource)"
    using i n k m b by (rule layerOpaqueRecords_mem)
  then have "count_list (layerOpaqueRecords painter modelSource) ?r \<noteq> 0"
    by (simp add: count_list_0_iff)
  then show "1 \<le> count_list (layerOpaqueRecords painter modelSource) ?r"
    by simp
  have nb: "alphaMode (material (mesh ?r)) \<noteq> BLEND"
    using b by (simp add: opaqueRecord_def)
  have t0: "drawCount ?r (transparentCallsOf painter modelSource) = 0"
    using nb transparent_calls_are_transparent by (rule drawCount_transparent_calls)
  {
    assume o: "0 < opacity \<and> opacity < 1"
    with r have "drawModels painter modelSource opacity =
      Inr (map (\<lambda>r. DrawMesh r StencilDisabled ColorDisabled)
             (layerOpaqueRecords painter modelSource) @
           map (\<lambda>r. DrawMesh r StencilModeFor3D ColorModeForRenderPass)
             (layerOpaqueRecords painter modelSource) @
           [ResetStencilClippingMasks] @ transparentCallsOf painter modelSource)"
      by (simp add: drawModels_eq collectedMeshes_eq)
    then show "\<exists>calls. drawModels painter modelSource opacity = Inr calls \<and>
        drawCount ?r calls = 2 * count_list (layerOpaqueRecords painter modelSource) ?r"
      by (simp add: drawCount_append drawCount_Cons drawCount_map t0 isDrawOf_def)
  }
  {
    assume o: "opacity = 1"
    with r have "drawModels painter modelSource opacity =
      Inr (map (\<lambda>r. DrawMesh r StencilDisabled ColorModeForRenderPass)
             (layerOpaqueRecords painter modelSource) @ transparentCallsOf painter modelSource)"
      by (simp add: drawModels_eq collectedMeshes_eq)
    then show "\<exists>calls. drawModels painter modelSource opacity = Inr calls \<and>
        drawCount ?r calls = count_list (layerOpaqueRecords painter modelSource) ?r"
      by (simp add: drawCount_append drawCount_map t0)
  }
qed

lemma scene_opaque:
  "layerOpaqueRecords scenePainter sceneSource = [sceneRecord meshSolid 0, sceneRecord maskMesh 0]"
  using collectedMeshes_eq [of scenePainter sceneSource] by (simp add: scene_collected)

lemma scene_solid_record:
  "opaqueRecord (painter_transform scenePainter) (model_matrix (getModels sceneSource ! 0))
     (projMatrix scenePainter) 0 sceneRoot meshSolid = sceneRecord meshSolid 0"
  by (simp add: opaqueRecord_def sceneRecord_def nodeWVP_def nodeWorld_def rootMatrix_def
      scenePainter_def sceneSource_def sceneModel_def sceneRoot_def mercatorTransform_def
      identity4_multiply)

text \<open>
  The example layer at opacities 1/2, 1 and 0: the opaque mesh of the root node is drawn
  twice, once and not at all.
\<close>

theorem drawModels_opaque_passes_witness:
  "reachesMeshDraw scenePainter sceneSource \<and>
   layerOpaqueRecords scenePainter sceneSource = [sceneRecord meshSolid 0, sceneRecord maskMesh 0] \<and>
   sceneRoot \<in> set (model_nodes (getModels sceneSource ! 0)) \<and>
   meshSolid \<in> set (meshList sceneRoot) \<and> alphaMode (material meshSolid) = OPAQUE \<and>
   drawModels scenePainter sceneSource (1/2) =
     Inr [DrawMesh (sceneRecord meshSolid 0) StencilDisabled ColorDisabled,
          DrawMesh (sceneRecord maskMesh 0) StencilDisabled ColorDisabled,
          DrawMesh (sceneRecord meshSolid 0) StencilModeFor3D ColorModeForRenderPass,
          DrawMesh (sceneRecord maskMesh 0) StencilModeFor3D ColorModeForRenderPass,
          ResetStencilClippingMasks,
          DrawMesh (sceneRecord (blendMesh 12 8) 8) StencilDisabled ColorModeForRenderPass,
          DrawMesh (sceneRecord (blendMesh 10 5) 5) StencilDisabled ColorModeForRenderPass,
          DrawMesh (sceneRecord (blendMesh 13 5) 5) StencilDisabled ColorModeForRenderPass,
          DrawMesh (sceneRecord (blendMesh 11 2) 2) StencilDisabled ColorModeForRenderPass] \<and>
   (\<exists>calls. drawModels scenePainter sceneSource (1/2) = Inr calls \<and>
      drawCount (sceneRecord meshSolid 0) calls = 2) \<and>
   (\<exists>calls. drawModels scenePainter sceneSource 1 = Inr calls \<and>
      drawCount (sceneRecord meshSolid 0) calls = 1) \<and>
   drawModels scenePainter sceneSource 0 = Inr []"
proof -
  have i: "0 < length (getModels sceneSource)"
    by (simp add: sceneSource_def)
  have n: "sceneRoot \<in> set (model_nodes (getModels sceneSource ! 0))"
    by (simp add: sceneSource_def sceneModel_def sceneRoot_def)
  have k: "sceneRoot \<in> set (allNodes sceneRoot)"
    by (simp add: sceneRoot_def)
  have m: "meshSolid \<in> set (meshList sceneRoot)"
    by (simp add: sceneRoot_def meshList_def)
  have a: "alphaMode (material meshSolid) = OPAQUE"
    by (simp add: meshSolid_def)
  then have b: "alphaMode (material meshSolid) \<noteq> BLEND"
    by simp
  have cnt: "count_list (layerOpaqueRecords scenePainter sceneSource) (sceneRecord meshSolid 0) = 1"
    by (simp add: scene_opaque sceneRecord_def meshSolid_def maskMesh_def)
  have half: "(0::real) < 1/2 \<and> (1/2::real) < 1"
    by simp
  note t = drawModels_opaque_passes [of scenePainter sceneSource]
  note mesh = t [THEN conjunct1, rule_format, OF scene_reaches, THEN conjunct2, THEN conjunct2,
      rule_format, OF i n k m b, unfolded scene_solid_record]
  from mesh [of "1/2", THEN conjunct2, THEN conjunct1, rule_format, OF half] cnt
  have two: "\<exists>calls. drawModels scenePainter sceneSource (1/2) = Inr calls \<and>
      drawCount (sceneRecord meshSolid 0) calls = 2"
    by simp
  from mesh [of 1, THEN conjunct2, THEN conjunct2, rule_format, OF refl] cnt
  have one: "\<exists>calls. drawModels scenePainter sceneSource 1 = Inr calls \<and>
      drawCount (sceneRecord meshSolid 0) calls = 1"
    by simp
  from t [of 0, THEN conjunct2, rule_format, OF refl]
  have zero: "drawModels scenePainter sceneSource 0 = Inr []" .
  have calls: "drawModels scenePainter sceneSource (1/2) =
     Inr [DrawMesh (sceneRecord meshSolid 0) StencilDisabled ColorDisabled,
          DrawMesh (sceneRecord maskMesh 0) StencilDisabled ColorDisabled,
          DrawMesh (sceneRecord meshSolid 0) StencilModeFor3D ColorModeForRenderPass,
          DrawMesh (sceneRecord maskMesh 0) StencilModeFor3D ColorModeForRenderPass,
          ResetStencilClippingMasks,
          DrawMesh (sceneRecord (blendMesh 12 8) 8) StencilDisabled ColorModeForRenderPass,
          DrawMesh (sceneRecord (blendMesh 10 5) 5) StencilDisabled ColorModeForRenderPass,
          DrawMesh (sceneRecord (blendMesh 13 5) 5) StencilDisabled ColorModeForRenderPass,
          DrawMesh (sceneRecord (blendMesh 11 2) 2) StencilDisabled ColorModeForRenderPass]"
    using drawModels_eq [OF scene_reaches, of "1/2"]
    by (simp add: transparentCallsOf_def scene_sorted) (simp add: scene_collected)
  show ?thesis
    by (intro conjI) (rule scene_reaches scene_opaque n m a calls two one zero)+
qed

section \<open>Properties of the shadow renderer\<close>

lemma countShadowLayers_eq:
  "countShadowLayers ls z ids acc = Inr n \<Longrightarrow>
   n = acc + length (filter (\<lambda>i. \<exists>l. ls i = Some l \<and> hasShadowPass l \<and> \<not> isHidden l z) ids)"
proof (induction ids arbitrary: acc)
  case Nil
  then show ?case by simp
next
  case (Cons i ids)
  then obtain l where l: "ls i = Some l" by (auto split: option.splits)
  with Cons.prems
  have "countShadowLayers ls z ids
          (acc + (if hasShadowPass l \<and> \<not> isHidden l z then 1 else 0)) = Inr n"
    by simp
  from Cons.IH [OF this] l show ?case by simp
qed

lemma countShadowLayers_pos:
  assumes "countShadowLayers ls z ids 0 = Inr n"
  shows "0 < n \<longleftrightarrow> (\<exists>i \<in> set ids. \<exists>l. ls i = Some l \<and> hasShadowPass l \<and> \<not> isHidden l z)"
  using countShadowLayers_eq [OF assms] by (auto simp: filter_empty_conv)

lemma countShadowLayers_total:
  "\<forall>i \<in> set ids. ls i \<noteq> None \<Longrightarrow> \<exists>n. countShadowLayers ls z ids acc = Inr n"
  by (induction ids arbitrary: acc) auto

lemma cascade_indices: "[0..<cascadeCount] = [0, 1]"
  by (simp add: cascadeCount_def upt_rec)

lemma updateCascades_two:
  "updateCascades clm tr [0..<cascadeCount] cs =
     (if 2 \<le> length cs
      then Inr (cs[0 := (cs ! 0)\<lparr>cascade_matrix := clm (fst (cascadeNearFar tr 0)) (snd (cascadeNearFar tr 0)),
                               far := snd (cascadeNearFar tr 0)\<rparr>,
                   1 := (cs ! 1)\<lparr>cascade_matrix := clm (fst (cascadeNearFar tr 1)) (snd (cascadeNearFar tr 1)),
                               far := snd (cascadeNearFar tr 1)\<rparr>])
      else Inl TypeError)"
  by (cases cs; cases "tl cs") (auto simp: cascade_indices split: prod.splits)

lemma cascadeNearFar_0:
  "cascadeNearFar tr 0 = (height tr / 50, 1.5 * cameraToCenterDistance tr)"
  by (simp add: cascadeNearFar_def cascadeCount_def)

lemma cascadeNearFar_Suc:
  "cascadeNearFar tr (Suc n) =
     (1.5 * cameraToCenterDistance tr, 3 * (1.5 * cameraToCenterDistance tr))"
  by (simp add: cascadeNearFar_def cascadeCount_def)

lemma cascadeNearFar_1:
  "cascadeNearFar tr 1 = (1.5 * cameraToCenterDistance tr, 3 * (1.5 * cameraToCenterDistance tr))"
  using cascadeNearFar_Suc [of tr 0] by simp

lemma updateShadowParameters_enabled:
  assumes "updateShadowParameters isWebGL2 st clm tr directionalLight this = Inr this'"
    and "enabled this'"
  shows "2 \<le> length (cascades this') \<and>
     cascade_matrix (cascades this' ! 0) = clm (fst (cascadeNearFar tr 0)) (snd (cascadeNearFar tr 0)) \<and>
     far (cascades this' ! 0) = snd (cascadeNearFar tr 0) \<and>
     cascade_matrix (cascades this' ! 1) = clm (fst (cascadeNearFar tr 1)) (snd (cascadeNearFar tr 1)) \<and>
     far (cascades this' ! 1) = snd (cascadeNearFar tr 1)"
  using assms
  by (auto simp: updateShadowParameters_def Let_def updateCascades_two nth_list_update
      split: if_splits option.splits sum.splits)

text \<open>
  Claim C4: after an update that leaves the shadows enabled, with \<open>cascadeCount = 2\<close>:
  cascade 0 is built for the distances from \<open>height / 50\<close> to \<open>1.5 \<cdot> cameraToCenterDistance\<close>
  and cascade 1 for those from \<open>1.5 \<cdot> cameraToCenterDistance\<close> to three times that; each
  cascade stores its far distance, and its matrix is \<open>createLightMatrix\<close> of its near and
  far distances. The far distance of cascade 0 is the near distance of cascade 1, and no
  distance lies strictly inside both ranges.
\<close>

theorem updateShadowParameters_cascade_ranges:
  assumes "updateShadowParameters isWebGL2 st clm tr directionalLight this = Inr this'"
    and "enabled this'"
  shows "cascadeCount = 2 \<and>
     cascadeNearFar tr 0 = (height tr / 50, 1.5 * cameraToCenterDistance tr) \<and>
     cascadeNearFar tr 1 =
       (1.5 * cameraToCenterDistance tr, 3 * (1.5 * cameraToCenterDistance tr)) \<and>
     cascade_matrix (cascades this' ! 0) =
       clm (height tr / 50) (1.5 * cameraToCenterDistance tr) \<and>
     far (cascades this' ! 0) = 1.5 * cameraToCenterDistance tr \<and>
     cascade_matrix (cascades this' ! 1) =
       clm (1.5 * cameraToCenterDistance tr) (3 * (1.5 * cameraToCenterDistance tr)) \<and>
     far (cascades this' ! 1) = 3 * (1.5 * cameraToCenterDistance tr) \<and>
     snd (cascadeNearFar tr 0) = fst (cascadeNearFar tr 1) \<and>
     {height tr / 50 <..< 1.5 * cameraToCenterDistance tr} \<inter>
       {1.5 * cameraToCenterDistance tr <..< 3 * (1.5 * cameraToCenterDistance tr)} = {}"
proof -
  have "{height tr / 50 <..< 1.5 * cameraToCenterDistance tr} \<inter>
       {1.5 * cameraToCenterDistance tr <..< 3 * (1.5 * cameraToCenterDistance tr)} = {}"
    by auto
  with updateShadowParameters_enabled [OF assms] show ?thesis
    by (simp add: cascadeNearFar_0 cascadeNearFar_Suc cascadeCount_def)
qed

lemma city_update:
  "updateShadowParameters True cityStyle diagonalLightMatrix mercatorTransform
     (Some (sunLight True)) newShadowRenderer = Inr cityShadowRenderer"
  by (simp add: updateShadowParameters_def Let_def updateCascades_two cascadeNearFar_0
      cascadeNearFar_Suc cascade_indices newShadowRenderer_def sunLight_def cityStyle_def
      roadLayer_def buildingLayer_def mercatorTransform_def newCascade_def cityShadowRenderer_def)

text \<open>
  A viewport 600 high with the camera 900 from the centre: the ranges are 12 to 1350 and
  1350 to 4050.
\<close>

theorem updateShadowParameters_cascade_ranges_witness:
  "updateShadowParameters True cityStyle diagonalLightMatrix mercatorTransform
     (Some (sunLight True)) newShadowRenderer = Inr cityShadowRenderer \<and>
   enabled cityShadowRenderer \<and>
   map far (cascades cityShadowRenderer) = [1350, 4050] \<and>
   map cascade_matrix (cascades cityShadowRenderer) =
     [diagonalLightMatrix 12 1350, diagonalLightMatrix 1350 4050] \<and>
   cascadeNearFar mercatorTransform 0 = (12, 1350) \<and>
   cascadeNearFar mercatorTransform 1 = (1350, 4050) \<and>
   {12 <..< 1350} \<inter> {1350 <..< (4050::real)} = {}"
proof -
  have en: "enabled cityShadowRenderer"
    by (simp add: cityShadowRenderer_def)
  have fars: "map far (cascades cityShadowRenderer) = [1350, 4050]"
    and mats: "map cascade_matrix (cascades cityShadowRenderer) =
      [diagonalLightMatrix 12 1350, diagonalLightMatrix 1350 4050]"
    by (simp_all add: cityShadowRenderer_def)
  note t = updateShadowParameters_cascade_ranges [OF city_update en]
  from t [THEN conjunct2, THEN conjunct1]
  have nf0: "cascadeNearFar mercatorTransform 0 = (12, 1350)"
    by (simp add: mercatorTransform_def)
  from t [THEN conjunct2, THEN conjunct2, THEN conjunct1]
  have nf1: "cascadeNearFar mercatorTransform 1 = (1350, 4050)"
    by (simp add: mercatorTransform_def)
  have dis: "{12 <..< 1350} \<inter> {1350 <..< (4050::real)} = {}"
    by auto
  show ?thesis
    by (intro conjI) (rule city_update en fars mats nf0 nf1 dis)+
qed

lemma updateShadowParameters_total:
  assumes "\<forall>layerId \<in> set (order st). layers st layerId \<noteq> None"
    and "cascades this = [] \<or> 2 \<le> length (cascades this)"
  shows "\<exists>this'. updateShadowParameters isWebGL2 st clm tr directionalLight this = Inr this'"
proof -
  from countShadowLayers_total [OF assms(1)] obtain n
    where "countShadowLayers (layers st) (zoom tr) (order st) 0 = Inr n" by blast
  moreover have "2 \<le> cascadeCount" by (simp add: cascadeCount_def)
  ultimately show ?thesis using assms(2)
    by (auto simp: updateShadowParameters_def Let_def updateCascades_two
        split: option.splits)
qed

text \<open>
  Claim C6: when \<open>updateShadowParameters\<close> returns, \<open>enabled\<close> holds exactly when the
  context is WebGL 2, there is a directional light with properties whose \<open>cast-shadows\<close>
  is true and whose \<open>shadow-intensity\<close> is positive, and some layer of the style's order
  has a shadow pass and is not hidden at the transform's zoom. It does return when every
  id of the order names a layer and the cascades are not yet created or are at least two.
  When \<open>cast-shadows\<close> is false, the update returns the state with \<open>enabled\<close> false and a
  layer count of 0, and \<open>drawShadowPass\<close> in that state returns with no call made: no
  framebuffer is bound.
\<close>

theorem updateShadowParameters_enabled_iff:
  "(updateShadowParameters isWebGL2 st clm tr directionalLight this = Inr this' \<longrightarrow>
      (enabled this' \<longleftrightarrow>
         isWebGL2 \<and>
         (\<exists>light props. directionalLight = Some light \<and> properties light = Some props \<and>
            cast_shadows props \<and> 0 < shadow_intensity props) \<and>
         (\<exists>layerId \<in> set (order st). \<exists>layer. layers st layerId = Some layer \<and>
            hasShadowPass layer \<and> \<not> isHidden layer (zoom tr)))) \<and>
   ((\<forall>layerId \<in> set (order st). layers st layerId \<noteq> None) \<and>
    (cascades this = [] \<or> 2 \<le> length (cascades this)) \<longrightarrow>
      (\<exists>this'. updateShadowParameters isWebGL2 st clm tr directionalLight this = Inr this')) \<and>
   (directionalLight = Some light \<and> properties light = Some props \<and> \<not> cast_shadows props \<longrightarrow>
      updateShadowParameters isWebGL2 st clm tr directionalLight this =
        Inr (this\<lparr>enabled := False, shadowLayerCount := 0\<rparr>) \<and>
      drawShadowPass (this\<lparr>enabled := False, shadowLayerCount := 0\<rparr>) pass z st' sourceCoords
        = Inr [])"
proof (intro conjI impI)
  assume u: "updateShadowParameters isWebGL2 st clm tr directionalLight this = Inr this'"
  show "enabled this' \<longleftrightarrow>
         isWebGL2 \<and>
         (\<exists>light props. directionalLight = Some light \<and> properties light = Some props \<and>
            cast_shadows props \<and> 0 < shadow_intensity props) \<and>
         (\<exists>layerId \<in> set (order st). \<exists>layer. layers st layerId = Some layer \<and>
            hasShadowPass layer \<and> \<not> isHidden layer (zoom tr))"
  proof (cases "isWebGL2 \<and> (\<exists>light props. directionalLight = Some light \<and>
      properties light = Some props \<and> cast_shadows props \<and> 0 < shadow_intensity props)")
    case False
    with u have "this' = this\<lparr>enabled := False, shadowLayerCount := 0\<rparr>"
      by (auto simp: updateShadowParameters_def Let_def split: option.splits if_splits)
    with False show ?thesis by auto
  next
    case True
    then obtain light props where lp: "isWebGL2" "directionalLight = Some light"
      "properties light = Some props" "cast_shadows props" "0 < shadow_intensity props"
      by blast
    with u obtain n where n: "countShadowLayers (layers st) (zoom tr) (order st) 0 = Inr n"
      by (auto simp: updateShadowParameters_def Let_def split: sum.splits)
    with u lp have "enabled this' \<longleftrightarrow> 0 < n"
      by (auto simp: updateShadowParameters_def Let_def split: sum.splits if_splits)
    with countShadowLayers_pos [OF n] True show ?thesis by simp
  qed
next
  assume "(\<forall>layerId \<in> set (order st). layers st layerId \<noteq> None) \<and>
    (cascades this = [] \<or> 2 \<le> length (cascades this))"
  then show "\<exists>this'. updateShadowParameters isWebGL2 st clm tr directionalLight this = Inr this'"
    using updateShadowParameters_total by blast
next
  assume h: "directionalLight = Some light \<and> properties light = Some props \<and> \<not> cast_shadows props"
  then show "updateShadowParameters isWebGL2 st clm tr directionalLight this =
        Inr (this\<lparr>enabled := False, shadowLayerCount := 0\<rparr>)"
    by (simp add: updateShadowParameters_def Let_def)
  show "drawShadowPass (this\<lparr>enabled := False, shadowLayerCount := 0\<rparr>) pass z st' sourceCoords
        = Inr []"
    by (simp add: drawShadowPass_def)
qed

lemma city_drawShadowPass:
  "drawShadowPass cityShadowRenderer ''shadow'' 16 cityStyle compositeCoords =
     Inr [SetViewport,
          BindFramebuffer 0, Clear, RenderLayer ''building'' 0,
          BindFramebuffer 1, Clear, RenderLayer ''building'' 1]"
  by (simp add: drawShadowPass_def cascade_indices cityShadowRenderer_def cityStyle_def
      roadLayer_def buildingLayer_def compositeCoords_def)

text \<open>
  The example style at zoom 16: with \<open>cast-shadows\<close> true the renderer is enabled and the
  shadow pass binds both framebuffers; with \<open>cast-shadows\<close> false it is disabled and the
  shadow pass makes no call.
\<close>

theorem updateShadowParameters_enabled_iff_witness:
  "updateShadowParameters True cityStyle diagonalLightMatrix mercatorTransform
     (Some (sunLight True)) newShadowRenderer = Inr cityShadowRenderer \<and>
   enabled cityShadowRenderer \<and>
   layers cityStyle ''building'' = Some buildingLayer \<and>
   hasShadowPass buildingLayer \<and> \<not> isHidden buildingLayer (zoom mercatorTransform) \<and>
   updateShadowParameters True cityStyle diagonalLightMatrix mercatorTransform
     (Some (sunLight False)) cityShadowRenderer =
     Inr (cityShadowRenderer\<lparr>enabled := False, shadowLayerCount := 0\<rparr>) \<and>
   drawShadowPass (cityShadowRenderer\<lparr>enabled := False, shadowLayerCount := 0\<rparr>)
     ''shadow'' 16 cityStyle compositeCoords = Inr [] \<and>
   drawShadowPass cityShadowRenderer ''shadow'' 16 cityStyle compositeCoords =
     Inr [SetViewport,
          BindFramebuffer 0, Clear, RenderLayer ''building'' 0,
          BindFramebuffer 1, Clear, RenderLayer ''building'' 1]"
proof -
  have off: "Some (sunLight False) = Some (sunLight False) \<and>
      properties (sunLight False) = Some \<lparr>cast_shadows = False, shadow_intensity = 1\<rparr> \<and>
      \<not> cast_shadows \<lparr>cast_shadows = False, shadow_intensity = 1\<rparr>"
    by (simp add: sunLight_def)
  note t = updateShadowParameters_enabled_iff [of True cityStyle diagonalLightMatrix mercatorTransform "Some (sunLight False)"
      cityShadowRenderer _ "sunLight False" "\<lparr>cast_shadows = False, shadow_intensity = 1\<rparr>"
      "''shadow''" 16 cityStyle compositeCoords]
  from t off have
    "updateShadowParameters True cityStyle diagonalLightMatrix mercatorTransform
       (Some (sunLight False)) cityShadowRenderer =
       Inr (cityShadowRenderer\<lparr>enabled := False, shadowLayerCount := 0\<rparr>) \<and>
     drawShadowPass (cityShadowRenderer\<lparr>enabled := False, shadowLayerCount := 0\<rparr>)
       ''shadow'' 16 cityStyle compositeCoords = Inr []"
    by blast
  moreover have "enabled cityShadowRenderer"
    using updateShadowParameters_enabled_iff [of True cityStyle diagonalLightMatrix mercatorTransform "Some (sunLight True)"
      newShadowRenderer cityShadowRenderer] city_update
    by (auto simp: sunLight_def cityStyle_def buildingLayer_def mercatorTransform_def)
  moreover have "layers cityStyle ''building'' = Some buildingLayer \<and>
     hasShadowPass buildingLayer \<and> \<not> isHidden buildingLayer (zoom mercatorTransform)"
    by (simp add: cityStyle_def buildingLayer_def mercatorTransform_def)
  ultimately show ?thesis
    using city_update city_drawShadowPass by simp
qed

lemma sphereK_sq: "sphereK tr * sphereK tr = (sphereK tr)\<^sup>2"
  by (simp add: power2_eq_square)

text \<open>
  Claim C5: with \<open>k = sqrt (1 + aspectRatio\<^sup>2) \<cdot> tan (fovX / 2)\<close> and \<open>far + near \<noteq> 0\<close>: if
  \<open>k\<^sup>2 > (far - near) / (far + near)\<close>, the sphere has centre depth \<open>far\<close> and radius
  \<open>far \<cdot> k\<close>; otherwise its centre depth is \<open>0.5 \<cdot> (far + near) \<cdot> (1 + k\<^sup>2)\<close> and its radius
  \<open>0.5 \<cdot> sqrt ((far - near)\<^sup>2 + 2 \<cdot> (far\<^sup>2 + near\<^sup>2) \<cdot> k\<^sup>2 + (far + near)\<^sup>2 \<cdot> k\<^sup>4)\<close>.
\<close>

theorem frustumBoundingSphere_two_cases:
  assumes "far' + near \<noteq> 0"
  shows "sphereK tr = sqrt (1 + (aspect tr)\<^sup>2) * tan (fovX tr / 2) \<and>
    ((sphereK tr)\<^sup>2 > (far' - near) / (far' + near) \<longrightarrow>
       frustumBoundingSphere tr near far' = (far', far' * sphereK tr)) \<and>
    (\<not> (sphereK tr)\<^sup>2 > (far' - near) / (far' + near) \<longrightarrow>
       frustumBoundingSphere tr near far' =
         (0.5 * (far' + near) * (1 + (sphereK tr)\<^sup>2),
          0.5 * sqrt ((far' - near)\<^sup>2 + 2 * (far'\<^sup>2 + near\<^sup>2) * (sphereK tr)\<^sup>2
                      + (far' + near)\<^sup>2 * (sphereK tr) ^ 4)))"
proof (intro conjI impI)
  show "sphereK tr = sqrt (1 + (aspect tr)\<^sup>2) * tan (fovX tr / 2)"
    by (simp add: sphereK_def power2_eq_square)
next
  assume "(sphereK tr)\<^sup>2 > (far' - near) / (far' + near)"
  then show "frustumBoundingSphere tr near far' = (far', far' * sphereK tr)"
    by (simp add: frustumBoundingSphere_def Let_def sphereK_sq)
next
  assume "\<not> (sphereK tr)\<^sup>2 > (far' - near) / (far' + near)"
  moreover have "(far' - near) * (far' - near) + 2 * (far' * far' + near * near) * (sphereK tr)\<^sup>2
      + (far' + near) * (far' + near) * (sphereK tr)\<^sup>2 * (sphereK tr)\<^sup>2 =
      (far' - near)\<^sup>2 + 2 * (far'\<^sup>2 + near\<^sup>2) * (sphereK tr)\<^sup>2
                      + (far' + near)\<^sup>2 * (sphereK tr) ^ 4"
    by (simp add: power2_eq_square power4_eq_xxxx algebra_simps)
  ultimately show "frustumBoundingSphere tr near far' =
         (0.5 * (far' + near) * (1 + (sphereK tr)\<^sup>2),
          0.5 * sqrt ((far' - near)\<^sup>2 + 2 * (far'\<^sup>2 + near\<^sup>2) * (sphereK tr)\<^sup>2
                      + (far' + near)\<^sup>2 * (sphereK tr) ^ 4))"
    by (simp add: frustumBoundingSphere_def Let_def sphereK_sq)
qed

lemma sphereK_wide: "sphereK (mercatorTransform\<lparr>fovX := pi / 2\<rparr>) = 5 / 3"
proof -
  have "sqrt (25 / 9) = 5 / (3::real)"
    by (rule real_sqrt_unique) (simp_all add: power2_eq_square)
  moreover have "1 + 4 / 3 * (4 / 3) = 25 / (9::real)" by simp
  ultimately show ?thesis
    by (simp add: sphereK_def mercatorTransform_def tan_45)
qed

lemma sphereK_narrow: "sphereK mercatorTransform = 0"
  by (simp add: sphereK_def mercatorTransform_def)

text \<open>
  The slice from 12 to 1350 at aspect ratio 4/3: with a field of view of \<open>\<pi>/2\<close>, \<open>k = 5/3\<close>
  and the sphere is centred at the far distance; with a field of view of 0, \<open>k = 0\<close> and
  the sphere spans the segment from 12 to 1350.
\<close>

theorem frustumBoundingSphere_two_cases_witness:
  "sphereK (mercatorTransform\<lparr>fovX := pi / 2\<rparr>) = 5 / 3 \<and>
   frustumBoundingSphere (mercatorTransform\<lparr>fovX := pi / 2\<rparr>) 12 1350 = (1350, 2250) \<and>
   sphereK mercatorTransform = 0 \<and>
   frustumBoundingSphere mercatorTransform 12 1350 = (681, 669)"
proof -
  have ne: "(1350::real) + 12 \<noteq> 0" by simp
  note wide = frustumBoundingSphere_two_cases [OF ne, of "mercatorTransform\<lparr>fovX := pi / 2\<rparr>",
      THEN conjunct2, THEN conjunct1, rule_format]
  note narrow = frustumBoundingSphere_two_cases [OF ne, of mercatorTransform, THEN conjunct2, THEN conjunct2, rule_format]
  have "frustumBoundingSphere (mercatorTransform\<lparr>fovX := pi / 2\<rparr>) 12 1350 =
      (1350, 1350 * sphereK (mercatorTransform\<lparr>fovX := pi / 2\<rparr>))"
    by (rule wide) (simp add: sphereK_wide power2_eq_square)
  then have a: "frustumBoundingSphere (mercatorTransform\<lparr>fovX := pi / 2\<rparr>) 12 1350 = (1350, 2250)"
    by (simp add: sphereK_wide)
  have "frustumBoundingSphere mercatorTransform 12 1350 =
         (0.5 * (1350 + 12) * (1 + (sphereK mercatorTransform)\<^sup>2),
          0.5 * sqrt ((1350 - 12)\<^sup>2 + 2 * (1350\<^sup>2 + 12\<^sup>2) * (sphereK mercatorTransform)\<^sup>2
                      + (1350 + 12)\<^sup>2 * (sphereK mercatorTransform) ^ 4))"
    by (rule narrow) (simp add: sphereK_narrow)
  then have b: "frustumBoundingSphere mercatorTransform 12 1350 = (681, 669)"
    by (simp add: sphereK_narrow)
  from a b show ?thesis
    by (simp add: sphereK_wide sphereK_narrow)
qed

section \<open>Properties of the instanced models\<close>

lemma fold_updateInstance_events:
  "\<exists>new. snd (fold (updateInstance dem ex m) is (inst, evs)) = evs @ new \<and>
     (\<forall>e \<in> set new. \<forall>m'. m' \<noteq> m \<longrightarrow> \<not> touches m' e) \<and>
     (dem = None \<longrightarrow> (\<forall>e \<in> set new. \<not> isSample e))"
proof (induction "is" arbitrary: inst evs)
  case Nil
  then show ?case by simp
next
  case (Cons i "is")
  obtain inst' new1 where step: "updateInstance dem ex m i (inst, evs) = (inst', evs @ new1)"
    and new1: "\<forall>e \<in> set new1. \<forall>m'. m' \<noteq> m \<longrightarrow> \<not> touches m' e"
      "dem = None \<longrightarrow> (\<forall>e \<in> set new1. \<not> isSample e)"
    by (auto simp: updateInstance_def Let_def touches_def isSample_def split: option.splits)
  from Cons.IH [of inst' "evs @ new1"] obtain new2 where
    "snd (fold (updateInstance dem ex m) is (inst', evs @ new1)) = (evs @ new1) @ new2"
    and "\<forall>e \<in> set new2. \<forall>m'. m' \<noteq> m \<longrightarrow> \<not> touches m' e"
    and "dem = None \<longrightarrow> (\<forall>e \<in> set new2. \<not> isSample e)"
    by blast
  with step new1 show ?case
    by (intro exI [of _ "new1 @ new2"]) auto
qed

lemma updateModels_events:
  assumes "distinct (map fst ipm)" and "(m, inst) \<in> set ipm"
    and "bytesPerElement (instancedDataArray inst) \<noteq> 64"
  shows "\<forall>e \<in> set (fst (snd (updateModels dem ex ipm))). \<not> touches m e"
  using assms
proof (induction ipm)
  case Nil
  then show ?case by simp
next
  case (Cons p ipm)
  obtain m0 inst0 where p: "p = (m0, inst0)" by (cases p)
  show ?case
  proof (cases "bytesPerElement (instancedDataArray inst0) \<noteq> 64")
    case True
    then show ?thesis by (simp add: p)
  next
    case False
    with Cons.prems p have mem: "(m, inst) \<in> set ipm" by auto
    with Cons.prems p have ne: "m \<noteq> m0" by (auto simp: image_iff)
    from fold_updateInstance_events [of dem ex m0 "[0..<array_length (instancedDataArray inst0)]" inst0 "[]"]
    obtain new where new: "snd (fold (updateInstance dem ex m0)
        [0..<array_length (instancedDataArray inst0)] (inst0, [])) = new"
      and "\<forall>e \<in> set new. \<forall>m'. m' \<noteq> m0 \<longrightarrow> \<not> touches m' e"
      by auto
    with ne have a: "\<forall>e \<in> set new. \<not> touches m e" by blast
    from Cons.IH mem Cons.prems
    have b: "\<forall>e \<in> set (fst (snd (updateModels dem ex ipm))). \<not> touches m e" by simp
    from False a b new show ?thesis
      by (auto simp: p split: prod.splits)
  qed
qed

lemma updateModels_no_sample:
  "\<forall>e \<in> set (fst (snd (updateModels None ex ipm))). \<not> isSample e"
proof (induction ipm)
  case Nil
  then show ?case by simp
next
  case (Cons p ipm)
  obtain m0 inst0 where p: "p = (m0, inst0)" by (cases p)
  from fold_updateInstance_events [of None ex m0 "[0..<array_length (instancedDataArray inst0)]" inst0 "[]"]
  obtain new where "snd (fold (updateInstance None ex m0)
        [0..<array_length (instancedDataArray inst0)] (inst0, [])) = new"
      and "\<forall>e \<in> set new. \<not> isSample e"
    by auto
  with Cons.IH show ?case
    by (auto simp: p split: prod.splits)
qed

lemma updateModels_error:
  "snd (snd (updateModels dem ex ipm)) =
     (if \<forall>p \<in> set ipm. bytesPerElement (instancedDataArray (snd p)) = 64 then None
      else Some AssertionError)"
  by (induction ipm) (force split: prod.splits)+

lemma bucketIsValid_demIdentity:
  "bucketIsValid bucket ex dem \<longleftrightarrow>
     ex = validForExaggeration bucket \<and>
     (ex = 0 \<or> (demIdentity dem \<noteq> None \<and> demIdentity dem = validForDEMTile bucket))"
  by (auto simp: bucketIsValid_def demIdentity_def split: option.splits)

lemma updateModelBucketsElevation_unfold:
  assumes "terrainFor terr tileId = (ex, dem)"
  shows "updateModelBucketsElevation terr bucket tileId =
     (if bucketIsValid bucket ex dem then (bucket, [], None)
      else (case snd (snd (updateModels dem ex (instancesPerModel bucket))) of
              Some e \<Rightarrow> (bucket\<lparr>instancesPerModel := fst (updateModels dem ex (instancesPerModel bucket))\<rparr>,
                         fst (snd (updateModels dem ex (instancesPerModel bucket))), Some e)
            | None \<Rightarrow>
                (bucket\<lparr>instancesPerModel := fst (updateModels dem ex (instancesPerModel bucket)),
                        validForExaggeration := ex,
                        validForDEMTile := demIdentity dem,
                        uploaded := False\<rparr>,
                 fst (snd (updateModels dem ex (instancesPerModel bucket))) @ [Upload], None)))"
  using assms
  by (simp add: updateModelBucketsElevation_def demIdentity_def split: prod.splits option.splits)

text \<open>
  Claim C7: when an update of a bucket has returned with no assertion failed, a second
  update for the same tile id under a terrain with the same exaggeration and the same DEM
  tile identity (the sampler in use, when the exaggeration is not 0, being backed by a
  DEM tile) returns the bucket as it is with no event: no elevation is sampled, no lane
  is written and no upload is asked for. When the exaggeration is positive but no DEM
  tile, or one without data, is found for the tile id, the update works with
  exaggeration 0 and no sampler: it does what the update with no terrain does, samples
  no elevation, and returns without an exception when every buffer has 64-byte elements.
\<close>

theorem updateModelBucketsElevation_memoized:
  "(updateModelBucketsElevation terr bucket tileId = (bucket', evs, None) \<and>
    terrainFor terr tileId = (ex, dem) \<and> terrainFor terr' tileId = (ex, dem') \<and>
    demIdentity dem' = demIdentity dem \<and> (ex = 0 \<or> demIdentity dem \<noteq> None) \<longrightarrow>
      updateModelBucketsElevation terr' bucket' tileId = (bucket', [], None)) \<and>
   (terr = Some t \<and> 0 < exaggeration t \<and>
    (case findDEMTileFor t tileId of None \<Rightarrow> True | Some tile \<Rightarrow> \<not> dem_present tile) \<longrightarrow>
      terrainFor terr tileId = (0, None) \<and>
      updateModelBucketsElevation terr bucket tileId =
        updateModelBucketsElevation None bucket tileId \<and>
      (\<forall>e \<in> set (fst (snd (updateModelBucketsElevation terr bucket tileId))). \<not> isSample e) \<and>
      ((\<forall>p \<in> set (instancesPerModel bucket). bytesPerElement (instancedDataArray (snd p)) = 64) \<longrightarrow>
         snd (snd (updateModelBucketsElevation terr bucket tileId)) = None))"
proof (intro conjI impI)
  assume h: "updateModelBucketsElevation terr bucket tileId = (bucket', evs, None) \<and>
    terrainFor terr tileId = (ex, dem) \<and> terrainFor terr' tileId = (ex, dem') \<and>
    demIdentity dem' = demIdentity dem \<and> (ex = 0 \<or> demIdentity dem \<noteq> None)"
  then have first: "updateModelBucketsElevation terr bucket tileId = (bucket', evs, None)"
    and t: "terrainFor terr tileId = (ex, dem)" and t': "terrainFor terr' tileId = (ex, dem')"
    and same: "demIdentity dem' = demIdentity dem" and backed: "ex = 0 \<or> demIdentity dem \<noteq> None"
    by blast+
  have "bucketIsValid bucket' ex dem'"
  proof (cases "bucketIsValid bucket ex dem")
    case True
    with first t have "bucket' = bucket"
      by (simp add: updateModelBucketsElevation_unfold)
    with True same show ?thesis
      by (auto simp: bucketIsValid_demIdentity)
  next
    case False
    with first t have "validForExaggeration bucket' = ex \<and> validForDEMTile bucket' = demIdentity dem"
      by (auto simp: updateModelBucketsElevation_unfold split: option.splits)
    with same backed show ?thesis
      by (auto simp: bucketIsValid_demIdentity)
  qed
  with t' show "updateModelBucketsElevation terr' bucket' tileId = (bucket', [], None)"
    by (simp add: updateModelBucketsElevation_unfold)
next
  assume h: "terr = Some t \<and> 0 < exaggeration t \<and>
    (case findDEMTileFor t tileId of None \<Rightarrow> True | Some tile \<Rightarrow> \<not> dem_present tile)"
  then show t0: "terrainFor terr tileId = (0, None)"
    by (auto simp: terrainFor_def split: option.splits)
  have n0: "terrainFor None tileId = (0, None)"
    by (simp add: terrainFor_def)
  show "updateModelBucketsElevation terr bucket tileId =
        updateModelBucketsElevation None bucket tileId"
    by (simp add: updateModelBucketsElevation_unfold [OF t0] updateModelBucketsElevation_unfold [OF n0])
  show "\<forall>e \<in> set (fst (snd (updateModelBucketsElevation terr bucket tileId))). \<not> isSample e"
    using updateModels_no_sample [of 0 "instancesPerModel bucket"]
    by (auto simp: updateModelBucketsElevation_unfold [OF t0] isSample_def split: option.splits)
  assume "\<forall>p \<in> set (instancesPerModel bucket). bytesPerElement (instancedDataArray (snd p)) = 64"
  then show "snd (snd (updateModelBucketsElevation terr bucket tileId)) = None"
    by (simp add: updateModelBucketsElevation_unfold [OF t0] updateModels_error)
qed

lemma upt_2: "[0..<2] = [0, 1]"
  by (simp add: upt_rec)

lemma hill_terrainFor:
  "terrainFor (Some hillTerrain) 5 =
     (2, Some \<lparr>sampler_demTile = Some hillTile, getElevationAt = (\<lambda>x y. of_int (x + y))\<rparr>)"
  by (simp add: terrainFor_def hillTerrain_def hillTile_def)

lemma hill_first:
  "updateModelBucketsElevation (Some hillTerrain) treeBucket 5 =
     (treeBucketOnHill,
      [ReadLane ''tree'' 0, ReadLane ''tree'' 1, GetElevationAt 3 4, WriteLane ''tree'' 6,
       ReadLane ''tree'' 16, ReadLane ''tree'' 17, GetElevationAt (-2) 1, WriteLane ''tree'' 22,
       Upload],
      None)"
  by (simp add: updateModelBucketsElevation_unfold [OF hill_terrainFor] bucketIsValid_def
      treeBucket_def treeBucketOnHill_def treeInstances_def treeLanes_def upt_2
      updateInstance_def readInt_def toInt32_def demIdentity_def hillTile_def)

lemma flat_first:
  "updateModelBucketsElevation None treeBucketOnHill 6 =
     (treeBucketFlat,
      [ReadLane ''tree'' 0, ReadLane ''tree'' 1, WriteLane ''tree'' 6,
       ReadLane ''tree'' 16, ReadLane ''tree'' 17, WriteLane ''tree'' 22,
       Upload],
      None)"
  by (simp add: updateModelBucketsElevation_def terrainFor_def bucketIsValid_def
      treeBucketFlat_def treeBucketOnHill_def treeInstances_def treeLanes_def upt_2
      updateInstance_def readInt_def toInt32_def)

text \<open>
  The example bucket on tile 5: the first update samples both instances and writes
  2 \<cdot> 7 + 10 = 24 and 2 \<cdot> (-1) + 20 = 18; the second makes no event. On tile 6, which has
  no DEM tile, the update writes the evaluated elevations 10 and 20 and samples nothing.
\<close>

theorem updateModelBucketsElevation_memoized_witness:
  "updateModelBucketsElevation (Some hillTerrain) treeBucket 5 =
     (treeBucketOnHill,
      [ReadLane ''tree'' 0, ReadLane ''tree'' 1, GetElevationAt 3 4, WriteLane ''tree'' 6,
       ReadLane ''tree'' 16, ReadLane ''tree'' 17, GetElevationAt (-2) 1, WriteLane ''tree'' 22,
       Upload],
      None) \<and>
   updateModelBucketsElevation (Some hillTerrain) treeBucketOnHill 5 = (treeBucketOnHill, [], None) \<and>
   0 < exaggeration hillTerrain \<and> findDEMTileFor hillTerrain 6 = None \<and>
   updateModelBucketsElevation (Some hillTerrain) treeBucketOnHill 6 =
     (treeBucketFlat,
      [ReadLane ''tree'' 0, ReadLane ''tree'' 1, WriteLane ''tree'' 6,
       ReadLane ''tree'' 16, ReadLane ''tree'' 17, WriteLane ''tree'' 22,
       Upload],
      None)"
proof -
  let ?dem = "Some \<lparr>sampler_demTile = Some hillTile, getElevationAt = (\<lambda>x y. of_int (x + y))\<rparr>"
  have backed: "(2::real) = 0 \<or> demIdentity ?dem \<noteq> None"
    by (simp add: demIdentity_def)
  from updateModelBucketsElevation_memoized [where terr = "Some hillTerrain" and bucket = treeBucket and tileId = 5
        and bucket' = treeBucketOnHill and ex = 2 and dem = ?dem
        and terr' = "Some hillTerrain" and dem' = ?dem,
      THEN conjunct1, rule_format] hill_first hill_terrainFor backed
  have again: "updateModelBucketsElevation (Some hillTerrain) treeBucketOnHill 5 =
      (treeBucketOnHill, [], None)"
    by blast
  have ex: "0 < exaggeration hillTerrain" and none: "findDEMTileFor hillTerrain 6 = None"
    by (simp_all add: hillTerrain_def)
  then have "Some hillTerrain = Some hillTerrain \<and> 0 < exaggeration hillTerrain \<and>
    (case findDEMTileFor hillTerrain 6 of None \<Rightarrow> True | Some tile \<Rightarrow> \<not> dem_present tile)"
    by simp
  from updateModelBucketsElevation_memoized [where terr = "Some hillTerrain" and t = hillTerrain and tileId = 6
        and bucket = treeBucketOnHill,
      THEN conjunct2, rule_format, OF this]
  have "updateModelBucketsElevation (Some hillTerrain) treeBucketOnHill 6 =
      updateModelBucketsElevation None treeBucketOnHill 6"
    by blast
  with hill_first again ex none show ?thesis
    by (simp add: flat_first)
qed

lemma drawInstancedMeshes_ok:
  "bytesPerElement (instancedDataArray modelInstances) = 64 \<Longrightarrow>
   drawInstancedMeshes ms modelInstances = (concat (map (meshCalls modelInstances) ms), None)"
  by (induction ms) (simp_all add: meshCalls_def)

lemma drawInstancedMeshes_bad:
  "bytesPerElement (instancedDataArray modelInstances) \<noteq> 64 \<Longrightarrow>
   drawInstancedMeshes ms modelInstances =
     (case ms of [] \<Rightarrow> ([], None) | m # _ \<Rightarrow> ([SetupMeshDraw (meshId m)], Some AssertionError))"
  by (cases ms) simp_all

lemma drawInstancedNode_unfold:
  "drawInstancedNode (Node node_matrix node_meshes node_children) modelInstances =
     (case drawInstancedMeshes (meshList (Node node_matrix node_meshes node_children)) modelInstances of
        (calls, Some e) \<Rightarrow> (calls, Some e)
      | (calls, None) \<Rightarrow>
          fold (\<lambda>child acc.
                  case acc of
                    (done, Some e) \<Rightarrow> (done, Some e)
                  | (done, None) \<Rightarrow>
                      (case drawInstancedNode child modelInstances of
                         (more_calls, e) \<Rightarrow> (done @ more_calls, e)))
            (case node_children of None \<Rightarrow> [] | Some cs \<Rightarrow> cs) (calls, None))"
  by (simp add: meshList_def split: option.splits prod.splits)

lemma fold_children_ok:
  assumes "\<And>c. c \<in> set cs \<Longrightarrow> drawInstancedNode c modelInstances = (h c, None)"
  shows "fold (\<lambda>child acc.
                  case acc of
                    (done, Some e) \<Rightarrow> (done, Some e)
                  | (done, None) \<Rightarrow>
                      (case drawInstancedNode child modelInstances of
                         (more_calls, e) \<Rightarrow> (done @ more_calls, e)))
           cs (calls, None) = (calls @ concat (map h cs), None)"
  using assms by (induction cs arbitrary: calls) simp_all

lemma concat_map_concat:
  "concat (map f (concat (map g xs))) = concat (map (\<lambda>x. concat (map f (g x))) xs)"
  by (induction xs) simp_all

lemma drawInstancedNode_ok:
  "bytesPerElement (instancedDataArray modelInstances) = 64 \<Longrightarrow>
   drawInstancedNode n modelInstances =
     (concat (map (\<lambda>k. concat (map (meshCalls modelInstances) (meshList k))) (allNodes n)), None)"
proof (induction n modelInstances rule: drawInstancedNode.induct)
  case (1 node_matrix node_meshes node_children modelInstances)
  let ?n = "Node node_matrix node_meshes node_children"
  let ?h = "\<lambda>n. concat (map (\<lambda>k. concat (map (meshCalls modelInstances) (meshList k))) (allNodes n))"
  note ok = drawInstancedMeshes_ok [OF "1.prems"]
  show ?case
  proof (cases node_children)
    case None
    then show ?thesis
      by (simp only: drawInstancedNode_unfold ok) simp
  next
    case (Some cs)
    have "\<And>c. c \<in> set cs \<Longrightarrow> drawInstancedNode c modelInstances = (?h c, None)"
    proof -
      fix c assume c: "c \<in> set cs"
      have "(concat (map (meshCalls modelInstances) (meshList ?n)), None) =
        (case node_meshes of None \<Rightarrow> ([], None)
          | Some ms \<Rightarrow> drawInstancedMeshes ms modelInstances)"
        by (simp add: meshList_def ok split: option.splits)
      from "1.IH" [OF this refl Some c "1.prems"]
      show "drawInstancedNode c modelInstances = (?h c, None)" .
    qed
    from fold_children_ok [of cs modelInstances ?h, OF this] Some
    show ?thesis
      by (simp only: drawInstancedNode_unfold ok) (simp add: concat_map_concat)
  qed
qed

lemma hasMesh_Node:
  "hasMesh (Node node_matrix node_meshes node_children) \<longleftrightarrow>
     meshList (Node node_matrix node_meshes node_children) \<noteq> [] \<or>
     (\<exists>c \<in> set (case node_children of None \<Rightarrow> [] | Some cs \<Rightarrow> cs). hasMesh c)"
  by (auto simp: hasMesh_def split: option.splits)

lemma fold_children_bad:
  assumes "\<And>c. c \<in> set cs \<Longrightarrow>
      (\<forall>x \<in> set (fst (drawInstancedNode c modelInstances)). \<not> isInstanceRead x) \<and>
      snd (drawInstancedNode c modelInstances) = (if hasMesh c then Some AssertionError else None)"
    and "\<forall>x \<in> set calls. \<not> isInstanceRead x"
    and "e = None \<or> e = Some AssertionError"
  shows "(\<forall>x \<in> set (fst (fold (\<lambda>child acc.
                  case acc of
                    (done, Some e) \<Rightarrow> (done, Some e)
                  | (done, None) \<Rightarrow>
                      (case drawInstancedNode child modelInstances of
                         (more_calls, e) \<Rightarrow> (done @ more_calls, e)))
           cs (calls, e))). \<not> isInstanceRead x) \<and>
     snd (fold (\<lambda>child acc.
                  case acc of
                    (done, Some e) \<Rightarrow> (done, Some e)
                  | (done, None) \<Rightarrow>
                      (case drawInstancedNode child modelInstances of
                         (more_calls, e) \<Rightarrow> (done @ more_calls, e)))
           cs (calls, e)) =
       (if e \<noteq> None \<or> (\<exists>c \<in> set cs. hasMesh c) then Some AssertionError else None)"
  using assms
proof (induction cs arbitrary: calls e)
  case Nil
  then show ?case by auto
next
  case (Cons c cs)
  obtain cc ce where d: "drawInstancedNode c modelInstances = (cc, ce)"
    by (cases "drawInstancedNode c modelInstances")
  from Cons.prems(1) [of c] d
  have c1: "\<forall>x \<in> set cc. \<not> isInstanceRead x"
    and c2: "ce = (if hasMesh c then Some AssertionError else None)"
    by auto
  have rest: "\<And>c'. c' \<in> set cs \<Longrightarrow>
      (\<forall>x \<in> set (fst (drawInstancedNode c' modelInstances)). \<not> isInstanceRead x) \<and>
      snd (drawInstancedNode c' modelInstances) = (if hasMesh c' then Some AssertionError else None)"
    using Cons.prems(1) by (meson list.set_intros(2))
  show ?case
  proof (cases e)
    case None
    have a: "\<forall>x \<in> set (calls @ cc). \<not> isInstanceRead x"
      using Cons.prems(2) c1 by auto
    have b: "ce = None \<or> ce = Some AssertionError"
      using c2 by simp
    from Cons.IH [OF rest a b] None d c2 show ?thesis
      by auto
  next
    case (Some err)
    from Cons.IH [OF rest Cons.prems(2) Cons.prems(3)] Some show ?thesis
      by auto
  qed
qed

lemma drawInstancedNode_bad:
  "bytesPerElement (instancedDataArray modelInstances) \<noteq> 64 \<Longrightarrow>
   (\<forall>x \<in> set (fst (drawInstancedNode n modelInstances)). \<not> isInstanceRead x) \<and>
   snd (drawInstancedNode n modelInstances) = (if hasMesh n then Some AssertionError else None)"
proof (induction n modelInstances rule: drawInstancedNode.induct)
  case (1 node_matrix node_meshes node_children modelInstances)
  let ?n = "Node node_matrix node_meshes node_children"
  let ?cs = "case node_children of None \<Rightarrow> [] | Some cs \<Rightarrow> cs"
  note bad = drawInstancedMeshes_bad [OF "1.prems"]
  show ?case
  proof (cases "meshList ?n")
    case Nil
    have kids: "\<And>c. c \<in> set ?cs \<Longrightarrow>
      (\<forall>x \<in> set (fst (drawInstancedNode c modelInstances)). \<not> isInstanceRead x) \<and>
      snd (drawInstancedNode c modelInstances) = (if hasMesh c then Some AssertionError else None)"
    proof -
      fix c assume c: "c \<in> set ?cs"
      then obtain cs where cs: "node_children = Some cs" "c \<in> set cs"
        by (cases node_children) auto
      have "([], None) =
        (case node_meshes of None \<Rightarrow> ([], None)
          | Some ms \<Rightarrow> drawInstancedMeshes ms modelInstances)"
        using Nil by (simp add: meshList_def split: option.splits)
      from "1.IH" [OF this refl cs "1.prems"]
      show "(\<forall>x \<in> set (fst (drawInstancedNode c modelInstances)). \<not> isInstanceRead x) \<and>
        snd (drawInstancedNode c modelInstances) = (if hasMesh c then Some AssertionError else None)" .
    qed
    have "\<forall>x \<in> set ([]::instancedCall list). \<not> isInstanceRead x" by simp
    from fold_children_bad [of ?cs modelInstances "[]" None, OF kids this] Nil
    show ?thesis
      by (simp only: drawInstancedNode_unfold bad hasMesh_Node) simp
  next
    case (Cons m ms)
    then show ?thesis
      by (simp only: drawInstancedNode_unfold bad hasMesh_Node) (simp add: isInstanceRead_def)
  qed
qed

text \<open>
  Claim C9: in the elevation updater, no lane of a buffer whose element size is not 64 is
  read or written, and unless the update returns at once the assertion fails; in
  \<open>drawInstancedNode\<close>, no instance is read from a buffer whose element size is not 64,
  and the assertion fails as soon as the tree has a mesh. With an element size of 64,
  \<open>drawInstancedNode\<close> draws every instance for every mesh of every node.
\<close>

theorem instance_buffer_stride_asserted:
  "(distinct (map fst (instancesPerModel bucket)) \<and> (m, inst) \<in> set (instancesPerModel bucket) \<and>
    bytesPerElement (instancedDataArray inst) \<noteq> 64 \<longrightarrow>
      (\<forall>e \<in> set (fst (snd (updateModelBucketsElevation terr bucket tileId))). \<not> touches m e) \<and>
      (\<not> bucketIsValid bucket (fst (terrainFor terr tileId)) (snd (terrainFor terr tileId)) \<longrightarrow>
         snd (snd (updateModelBucketsElevation terr bucket tileId)) = Some AssertionError)) \<and>
   (bytesPerElement (instancedDataArray modelInstances) \<noteq> 64 \<longrightarrow>
      (\<forall>c \<in> set (fst (drawInstancedNode n modelInstances)). \<not> isInstanceRead c) \<and>
      ((\<exists>k \<in> set (allNodes n). meshList k \<noteq> []) \<longrightarrow>
         snd (drawInstancedNode n modelInstances) = Some AssertionError)) \<and>
   (bytesPerElement (instancedDataArray modelInstances) = 64 \<longrightarrow>
      drawInstancedNode n modelInstances =
        (concat (map (\<lambda>k. concat (map (meshCalls modelInstances) (meshList k))) (allNodes n)),
         None))"
proof (intro conjI impI)
  assume h: "distinct (map fst (instancesPerModel bucket)) \<and> (m, inst) \<in> set (instancesPerModel bucket) \<and>
    bytesPerElement (instancedDataArray inst) \<noteq> 64"
  obtain ex dem where t: "terrainFor terr tileId = (ex, dem)"
    by (cases "terrainFor terr tileId")
  from h have ev: "\<forall>e \<in> set (fst (snd (updateModels dem ex (instancesPerModel bucket)))). \<not> touches m e"
    using updateModels_events by blast
  from h have err: "snd (snd (updateModels dem ex (instancesPerModel bucket))) = Some AssertionError"
    by (force simp: updateModels_error)
  from ev show "\<forall>e \<in> set (fst (snd (updateModelBucketsElevation terr bucket tileId))). \<not> touches m e"
    by (auto simp: updateModelBucketsElevation_unfold [OF t] touches_def split: option.splits)
  assume "\<not> bucketIsValid bucket (fst (terrainFor terr tileId)) (snd (terrainFor terr tileId))"
  with err show "snd (snd (updateModelBucketsElevation terr bucket tileId)) = Some AssertionError"
    by (simp add: updateModelBucketsElevation_unfold [OF t] t)
next
  assume bad: "bytesPerElement (instancedDataArray modelInstances) \<noteq> 64"
  from drawInstancedNode_bad [OF bad]
  show "\<forall>c \<in> set (fst (drawInstancedNode n modelInstances)). \<not> isInstanceRead c"
    by blast
  assume "\<exists>k \<in> set (allNodes n). meshList k \<noteq> []"
  with drawInstancedNode_bad [OF bad, of n]
  show "snd (drawInstancedNode n modelInstances) = Some AssertionError"
    by (simp add: hasMesh_def)
next
  assume "bytesPerElement (instancedDataArray modelInstances) = 64"
  then show "drawInstancedNode n modelInstances =
        (concat (map (\<lambda>k. concat (map (meshCalls modelInstances) (meshList k))) (allNodes n)),
         None)"
    by (rule drawInstancedNode_ok)
qed

lemma mixed_update:
  "updateModelBucketsElevation None mixedBucket 5 =
     (mixedBucket\<lparr>instancesPerModel :=
        [(''tree'', treeInstances (treeLanes[6 := Num 10, 22 := Num 20])), (''lamp'', lampInstances)]\<rparr>,
      [ReadLane ''tree'' 0, ReadLane ''tree'' 1, WriteLane ''tree'' 6,
       ReadLane ''tree'' 16, ReadLane ''tree'' 17, WriteLane ''tree'' 22],
      Some AssertionError)"
  by (simp add: updateModelBucketsElevation_def terrainFor_def bucketIsValid_def
      mixedBucket_def treeInstances_def lampInstances_def treeLanes_def upt_2
      updateInstance_def readInt_def toInt32_def)

text \<open>
  A bucket whose second model has 32-byte elements: the first model's lanes are updated,
  then the assertion fails with no lane of the second model touched. Drawing a node with
  the 32-byte buffer fails after the first set-up, with no instance drawn.
\<close>

theorem instance_buffer_stride_asserted_witness:
  "updateModelBucketsElevation None mixedBucket 5 =
     (mixedBucket\<lparr>instancesPerModel :=
        [(''tree'', treeInstances (treeLanes[6 := Num 10, 22 := Num 20])), (''lamp'', lampInstances)]\<rparr>,
      [ReadLane ''tree'' 0, ReadLane ''tree'' 1, WriteLane ''tree'' 6,
       ReadLane ''tree'' 16, ReadLane ''tree'' 17, WriteLane ''tree'' 22],
      Some AssertionError) \<and>
   (''lamp'', lampInstances) \<in> set (instancesPerModel mixedBucket) \<and>
   bytesPerElement (instancedDataArray lampInstances) = 32 \<and>
   snd (snd (updateModelBucketsElevation None mixedBucket 5)) = Some AssertionError \<and>
   snd (drawInstancedNode flatNode lampInstances) = Some AssertionError \<and>
   drawInstancedNode flatNode lampInstances = ([SetupMeshDraw 1], Some AssertionError) \<and>
   drawInstancedNode flatNode (treeInstances treeLanes) =
     ([SetupMeshDraw 1, DrawInstance 1 0, DrawInstance 1 64,
       SetupMeshDraw 2, DrawInstance 2 0, DrawInstance 2 64,
       SetupMeshDraw 3, DrawInstance 3 0, DrawInstance 3 64], None)"
proof -
  have lamp: "bytesPerElement (instancedDataArray lampInstances) = 32"
    by (simp add: lampInstances_def)
  have tree: "bytesPerElement (instancedDataArray (treeInstances treeLanes)) = 64"
    by (simp add: treeInstances_def)
  have mem: "(''lamp'', lampInstances) \<in> set (instancesPerModel mixedBucket)"
    by (simp add: mixedBucket_def)
  have pre: "distinct (map fst (instancesPerModel mixedBucket)) \<and>
      (''lamp'', lampInstances) \<in> set (instancesPerModel mixedBucket) \<and>
      bytesPerElement (instancedDataArray lampInstances) \<noteq> 64"
    by (simp add: mixedBucket_def lampInstances_def)
  have stale: "\<not> bucketIsValid mixedBucket (fst (terrainFor None 5)) (snd (terrainFor None 5))"
    by (simp add: bucketIsValid_def terrainFor_def mixedBucket_def)
  from instance_buffer_stride_asserted [where bucket = mixedBucket and m = "''lamp''" and inst = lampInstances
        and terr = None and tileId = 5,
      THEN conjunct1, rule_format, OF pre, THEN conjunct2, rule_format, OF stale]
  have u: "snd (snd (updateModelBucketsElevation None mixedBucket 5)) = Some AssertionError" .
  have bad: "bytesPerElement (instancedDataArray lampInstances) \<noteq> 64"
    by (simp add: lamp)
  have some: "\<exists>k \<in> set (allNodes flatNode). meshList k \<noteq> []"
    by (simp add: flatNode_def meshList_def)
  from instance_buffer_stride_asserted [where modelInstances = lampInstances and n = flatNode,
      THEN conjunct2, THEN conjunct1, rule_format, OF bad, THEN conjunct2, rule_format, OF some]
  have e: "snd (drawInstancedNode flatNode lampInstances) = Some AssertionError" .
  have d: "drawInstancedNode flatNode lampInstances = ([SetupMeshDraw 1], Some AssertionError)"
    by (simp add: flatNode_def lampInstances_def meshInFront_def)
  from instance_buffer_stride_asserted [where modelInstances = "treeInstances treeLanes" and n = flatNode,
      THEN conjunct2, THEN conjunct2, rule_format, OF tree]
  have "drawInstancedNode flatNode (treeInstances treeLanes) =
     ([SetupMeshDraw 1, DrawInstance 1 0, DrawInstance 1 64,
       SetupMeshDraw 2, DrawInstance 2 0, DrawInstance 2 64,
       SetupMeshDraw 3, DrawInstance 3 0, DrawInstance 3 64], None)"
    by (simp add: flatNode_def meshList_def meshCalls_def treeInstances_def upt_2
        meshInFront_def meshBehind_def meshSolid_def)
  with mixed_update lamp mem u e d show ?thesis by simp
qed

end
